theory Spec2Isabelle
  imports Main "HOL-Library.Sublist" "HOL-Library.AList"
begin

section \<open>JavaScript strings and values\<close>

text \<open>
  Strings are lists of code units below 256 (the Latin-1 range of a JavaScript string).
  In that range \<open>String.prototype.trim\<close> strips exactly TAB, LF, VT, FF, CR, SPACE and
  NBSP. An optional value (\<open>undefined\<close> or \<open>null\<close>) is \<open>None\<close>.
\<close>

definition is_space :: "char \<Rightarrow> bool" where
  "is_space c = (c \<in> set [CHR 0x09, CHR 0x0A, CHR 0x0B, CHR 0x0C, CHR 0x0D, CHR 0x20, CHR 0xA0])"

definition trim :: "string \<Rightarrow> string" where
  "trim s = rev (dropWhile is_space (rev (dropWhile is_space s)))"

text \<open>Truthiness of a possibly missing string: \<open>undefined\<close> and \<open>''\<close> are falsy.\<close>

fun truthy :: "string option \<Rightarrow> string option" where
  "truthy None = None"
| "truthy (Some t) = (if t = [] then None else Some t)"

text \<open>\<open>v || d\<close> for a possibly missing string \<open>v\<close> and a string \<open>d\<close>.\<close>

definition or_else :: "string option \<Rightarrow> string \<Rightarrow> string" where
  "or_else v d = (case truthy v of None \<Rightarrow> d | Some t \<Rightarrow> t)"

text \<open>
  Numbers: the token counts a provider reports are integers far below \<open>2^53\<close>, where the
  addition of doubles is exact; \<open>NaN\<close> is the one other number the adapter can produce.
  \<open>a + b\<close> on two possibly missing numbers: \<open>undefined + x\<close> is \<open>NaN\<close>.
\<close>

datatype js_number = Num int | NaN

fun js_add :: "js_number option \<Rightarrow> js_number option \<Rightarrow> js_number" where
  "js_add (Some (Num a)) (Some (Num b)) = Num (a + b)"
| "js_add _ _ = NaN"

text \<open>What a \<open>throw\<close> carries; \<open>message\<close> is \<open>error.message\<close>.\<close>

datatype exn = Error (message: string) | TypeError (message: string)

section \<open>Provider adapter (services/aiService.ts)\<close>

record AIResponse =
  content :: string
  service :: string
  tokens :: "js_number option"
  model :: "string option"

text \<open>The field \<open>timestamp: new Date()\<close> reads the wall clock and is left out.\<close>

definition DEFAULT_MODELS :: "(string \<times> string) list" where
  "DEFAULT_MODELS =
    [(''openai'', ''gpt-4o-mini''),
     (''anthropic'', ''claude-3-haiku-20240307''),
     (''google'', ''gemini-1.5-flash''),
     (''groq'', ''llama3-8b-8192'')]"

subsection \<open>Requests, responses and the network\<close>

text \<open>
  An image file: its MIME type and what \<open>fileToBase64\<close> resolves to (\<open>None\<close> when the
  reader reports an error).
\<close>

record image_file =
  file_type :: string
  file_base64 :: "string option"

text \<open>
  The request handed to \<open>axios.post\<close>: the URL, the headers, and of the body the model, the
  user message and the inline image part (MIME type, data). The constants
  \<open>max_tokens: 2048\<close> and \<open>temperature: 0.7\<close> are the same in every body and left out.
\<close>

record request =
  url :: string
  headers :: "(string \<times> string) list"
  body_model :: "string option"
  body_prompt :: string
  body_inline_data :: "(string \<times> string) option"

text \<open>
  The rejection of \<open>axios.post\<close>: \<open>error.response?.data?.error?.message\<close> and
  \<open>error.message\<close>.
\<close>

record axios_error =
  response_message :: "string option"
  error_message :: string

text \<open>
  Response payloads, as the providers' schemas give them: the well-formed responses. A
  field the adapter reads through \<open>?.\<close> may be missing; the arrays it indexes without
  \<open>?.\<close> (\<open>choices\<close>, \<open>content\<close>) are there, possibly empty. A body without them is
  outside these types.
\<close>

record chat_message =
  msg_content :: "string option"

record chat_choice =
  choice_message :: "chat_message option"

record chat_usage =
  total_tokens :: "int option"

record chat_completion =
  choices :: "chat_choice list"
  chat_usage :: "chat_usage option"
  chat_model :: "string option"

record content_block =
  block_text :: "string option"

record anthropic_usage =
  input_tokens :: "int option"
  output_tokens :: "int option"

record anthropic_message =
  msg_blocks :: "content_block list"
  msg_usage :: "anthropic_usage option"
  msg_model :: "string option"

record gemini_part =
  part_text :: "string option"

record gemini_content =
  parts :: "gemini_part list option"

record gemini_candidate =
  candidate_content :: "gemini_content option"

record gemini_usage =
  totalTokenCount :: "int option"

record gemini_response =
  candidates :: "gemini_candidate list option"
  usageMetadata :: "gemini_usage option"

text \<open>
  The network answers the \<open>n\<close>-th request of a run; the index lets two identical requests
  get different answers.
\<close>

record network =
  chat_completions :: "nat \<Rightarrow> request \<Rightarrow> axios_error + chat_completion"
  messages :: "nat \<Rightarrow> request \<Rightarrow> axios_error + anthropic_message"
  generateContent :: "nat \<Rightarrow> request \<Rightarrow> axios_error + gemini_response"

text \<open>\<open>error.response?.data?.error?.message || error.message\<close>\<close>

definition error_text :: "axios_error \<Rightarrow> string" where
  "error_text e = or_else (response_message e) (error_message e)"

text \<open>\<open>xs[0]\<close> on an array.\<close>

fun first :: "'a list \<Rightarrow> 'a option" where
  "first [] = None"
| "first (x # _) = Some x"

subsection \<open>The four provider calls\<close>

text \<open>
  Each call returns what the promise settles to (\<open>Inl\<close>: rejected) and the requests it
  issued.
\<close>

definition bearer_headers :: "string \<Rightarrow> (string \<times> string) list" where
  "bearer_headers apiKey =
    [(''Authorization'', ''Bearer '' @ apiKey), (''Content-Type'', ''application/json'')]"

text \<open>\<open>response.data.choices[0]?.message?.content\<close>\<close>

definition chat_text :: "chat_completion \<Rightarrow> string option" where
  "chat_text d = Option.bind (Option.bind (first (choices d)) choice_message) msg_content"

text \<open>\<open>response.data.usage?.total_tokens\<close>\<close>

definition chat_tokens :: "chat_completion \<Rightarrow> js_number option" where
  "chat_tokens d = map_option Num (Option.bind (chat_usage d) total_tokens)"

definition openai_request :: "string \<Rightarrow> string \<Rightarrow> string option \<Rightarrow> request" where
  "openai_request prompt apiKey mdl =
    \<lparr>url = ''https://api.openai.com/v1/chat/completions'', headers = bearer_headers apiKey,
     body_model = mdl, body_prompt = prompt, body_inline_data = None\<rparr>"

definition callOpenAI ::
  "network \<Rightarrow> nat \<Rightarrow> string \<Rightarrow> string \<Rightarrow> string option \<Rightarrow> (exn + AIResponse) \<times> request list" where
  "callOpenAI nw n prompt apiKey mdl =
    (let req = openai_request prompt apiKey mdl
     in (case chat_completions nw n req of
           Inl error \<Rightarrow> Inl (Error (''OpenAI Error: '' @ error_text error))
         | Inr d \<Rightarrow>
             Inr \<lparr>content = or_else (chat_text d) ''No response'', service = ''openai'',
                  tokens = chat_tokens d, model = chat_model d\<rparr>,
         [req]))"

text \<open>\<open>response.data.content[0]?.text\<close>\<close>

definition anthropic_text :: "anthropic_message \<Rightarrow> string option" where
  "anthropic_text d = Option.bind (first (msg_blocks d)) block_text"

text \<open>\<open>response.data.usage?.input_tokens + response.data.usage?.output_tokens\<close>\<close>

definition anthropic_tokens :: "anthropic_message \<Rightarrow> js_number" where
  "anthropic_tokens d =
    js_add (map_option Num (Option.bind (msg_usage d) input_tokens))
           (map_option Num (Option.bind (msg_usage d) output_tokens))"

definition anthropic_request :: "string \<Rightarrow> string \<Rightarrow> string option \<Rightarrow> request" where
  "anthropic_request prompt apiKey mdl =
    \<lparr>url = ''https://api.anthropic.com/v1/messages'',
     headers = [(''x-api-key'', apiKey), (''Content-Type'', ''application/json''),
                (''anthropic-version'', ''2023-06-01'')],
     body_model = mdl, body_prompt = prompt, body_inline_data = None\<rparr>"

definition callAnthropic ::
  "network \<Rightarrow> nat \<Rightarrow> string \<Rightarrow> string \<Rightarrow> string option \<Rightarrow> (exn + AIResponse) \<times> request list" where
  "callAnthropic nw n prompt apiKey mdl =
    (let req = anthropic_request prompt apiKey mdl
     in (case messages nw n req of
           Inl error \<Rightarrow> Inl (Error (''Claude Error: '' @ error_text error))
         | Inr d \<Rightarrow>
             Inr \<lparr>content = or_else (anthropic_text d) ''No response'', service = ''anthropic'',
                  tokens = Some (anthropic_tokens d), model = msg_model d\<rparr>,
         [req]))"

text \<open>\<open>response.data.candidates?.[0]?.content?.parts?.[0]?.text\<close>\<close>

definition gemini_text :: "gemini_response \<Rightarrow> string option" where
  "gemini_text d =
    Option.bind (Option.bind (Option.bind (Option.bind (Option.bind
      (candidates d) first) candidate_content) parts) first) part_text"

text \<open>\<open>response.data.usageMetadata?.totalTokenCount\<close>\<close>

definition gemini_tokens :: "gemini_response \<Rightarrow> js_number option" where
  "gemini_tokens d = map_option Num (Option.bind (usageMetadata d) totalTokenCount)"

text \<open>A missing model prints as \<open>undefined\<close> in the template literal of the URL.\<close>

definition gemini_url :: "string option \<Rightarrow> string \<Rightarrow> string" where
  "gemini_url mdl apiKey =
    ''https://generativelanguage.googleapis.com/v1beta/models/''
      @ (case mdl of None \<Rightarrow> ''undefined'' | Some m \<Rightarrow> m)
      @ '':generateContent?key='' @ apiKey"

definition gemini_request ::
  "string \<Rightarrow> string \<Rightarrow> string option \<Rightarrow> (string \<times> string) option \<Rightarrow> request" where
  "gemini_request prompt apiKey mdl inline =
    \<lparr>url = gemini_url mdl apiKey, headers = [(''Content-Type'', ''application/json'')],
     body_model = None, body_prompt = prompt, body_inline_data = inline\<rparr>"

text \<open>The second \<open>try\<close> block of \<open>callGoogle\<close>, once the parts are built.\<close>

definition gemini_post ::
  "network \<Rightarrow> nat \<Rightarrow> string \<Rightarrow> string \<Rightarrow> string option \<Rightarrow> (string \<times> string) option
     \<Rightarrow> (exn + AIResponse) \<times> request list" where
  "gemini_post nw n prompt apiKey mdl inline =
    (let req = gemini_request prompt apiKey mdl inline
     in (case generateContent nw n req of
           Inl error \<Rightarrow> Inl (Error (''Gemini Error: '' @ error_text error))
         | Inr d \<Rightarrow>
             Inr \<lparr>content = or_else (gemini_text d) ''No response'', service = ''google'',
                  tokens = gemini_tokens d, model = mdl\<rparr>,
         [req]))"

definition callGoogle ::
  "network \<Rightarrow> nat \<Rightarrow> string \<Rightarrow> string \<Rightarrow> string option \<Rightarrow> image_file option
     \<Rightarrow> (exn + AIResponse) \<times> request list" where
  "callGoogle nw n prompt apiKey mdl img =
    (case img of
       None \<Rightarrow> gemini_post nw n prompt apiKey mdl None
     | Some f \<Rightarrow>
         (case file_base64 f of
            None \<Rightarrow> (Inl (Error ''Failed to process image file.''), [])
          | Some base64Data \<Rightarrow> gemini_post nw n prompt apiKey mdl (Some (file_type f, base64Data))))"

definition groq_request :: "string \<Rightarrow> string \<Rightarrow> string option \<Rightarrow> request" where
  "groq_request prompt apiKey mdl =
    \<lparr>url = ''https://api.groq.com/openai/v1/chat/completions'', headers = bearer_headers apiKey,
     body_model = mdl, body_prompt = prompt, body_inline_data = None\<rparr>"

definition callGroq ::
  "network \<Rightarrow> nat \<Rightarrow> string \<Rightarrow> string \<Rightarrow> string option \<Rightarrow> (exn + AIResponse) \<times> request list" where
  "callGroq nw n prompt apiKey mdl =
    (let req = groq_request prompt apiKey mdl
     in (case chat_completions nw n req of
           Inl error \<Rightarrow> Inl (Error (''Groq Error: '' @ error_text error))
         | Inr d \<Rightarrow>
             Inr \<lparr>content = or_else (chat_text d) ''No response'', service = ''groq'',
                  tokens = chat_tokens d, model = chat_model d\<rparr>,
         [req]))"

text \<open>
  \<open>model || DEFAULT_MODELS[serviceId]\<close>; for a service id that is no key of the table
  the value is only ever passed to the \<open>default\<close> branch, which does not read it.
\<close>

definition serviceModel :: "string option \<Rightarrow> string \<Rightarrow> string option" where
  "serviceModel mdl serviceId =
    (case truthy mdl of None \<Rightarrow> map_of DEFAULT_MODELS serviceId | Some m \<Rightarrow> Some m)"

definition callAIService ::
  "network \<Rightarrow> nat \<Rightarrow> string \<Rightarrow> string \<Rightarrow> string \<Rightarrow> string option \<Rightarrow> image_file option
     \<Rightarrow> (exn + AIResponse) \<times> request list" where
  "callAIService nw n serviceId prompt apiKey mdl img =
    (if serviceId = ''openai'' then callOpenAI nw n prompt apiKey (serviceModel mdl serviceId)
     else if serviceId = ''anthropic'' then callAnthropic nw n prompt apiKey (serviceModel mdl serviceId)
     else if serviceId = ''google'' then callGoogle nw n prompt apiKey (serviceModel mdl serviceId) img
     else if serviceId = ''groq'' then callGroq nw n prompt apiKey (serviceModel mdl serviceId)
     else (Inl (Error (''Unsupported AI service: '' @ serviceId)), []))"

section \<open>Stage sequencer (the GarageWorkflow component)\<close>

subsection \<open>Role catalogue\<close>

record role_def =
  name :: string
  description :: string

definition ROLE_DEFINITIONS :: "(string \<times> (string \<times> role_def) list) list" where
  "ROLE_DEFINITIONS =
    [(''build'',
      [(''A'', \<lparr>name = ''Prompt Refiner'', description = ''Refines user requirements and creates detailed specifications''\<rparr>),
       (''B'', \<lparr>name = ''Backend Developer'', description = ''Creates backend code, APIs, and database structure''\<rparr>),
       (''C'', \<lparr>name = ''Frontend Designer'', description = ''Builds UI/UX and frontend components''\<rparr>),
       (''D'', \<lparr>name = ''Code Reviewer'', description = ''Reviews, optimizes, and fixes code issues''\<rparr>),
       (''E'', \<lparr>name = ''Documentation Specialist'', description = ''Creates documentation and explanations''\<rparr>)]),
     (''research'',
      [(''A'', \<lparr>name = ''Research Coordinator'', description = ''Defines research scope and methodology''\<rparr>),
       (''B'', \<lparr>name = ''Data Collector'', description = ''Gathers information from multiple sources''\<rparr>),
       (''C'', \<lparr>name = ''Research Analyst'', description = ''Analyzes and synthesizes findings''\<rparr>),
       (''D'', \<lparr>name = ''Fact Checker'', description = ''Verifies accuracy and credibility''\<rparr>),
       (''E'', \<lparr>name = ''Report Writer'', description = ''Creates final comprehensive report''\<rparr>)]),
     (''math'',
      [(''A'', \<lparr>name = ''Problem Interpreter'', description = ''Understands and structures mathematical problems''\<rparr>),
       (''B'', \<lparr>name = ''Solution Strategist'', description = ''Develops solution approaches and methods''\<rparr>),
       (''C'', \<lparr>name = ''Calculator'', description = ''Performs calculations and computations''\<rparr>),
       (''D'', \<lparr>name = ''Verification Specialist'', description = ''Checks accuracy and alternative methods''\<rparr>),
       (''E'', \<lparr>name = ''Explainer'', description = ''Provides clear step-by-step explanations''\<rparr>)]),
     (''ideas'',
      [(''A'', \<lparr>name = ''Idea Coordinator'', description = ''Structures and clarifies creative concepts''\<rparr>),
       (''B'', \<lparr>name = ''Creative Generator'', description = ''Brainstorms and expands ideas''\<rparr>),
       (''C'', \<lparr>name = ''Feasibility Analyst'', description = ''Evaluates practicality and market potential''\<rparr>),
       (''D'', \<lparr>name = ''Idea Refiner'', description = ''Polishes and improves concepts''\<rparr>),
       (''E'', \<lparr>name = ''Implementation Planner'', description = ''Creates actionable next steps''\<rparr>)])]"

subsection \<open>Props, context and component state\<close>

text \<open>The card of \<open>GARAGE_OPTIONS\<close> the user picked: the fields the workflow reads.\<close>

record option_card =
  option_id :: string
  title :: string

datatype connection_status = conn_connected | conn_connecting | conn_disconnected | conn_error

record AIConnection =
  conn_id :: string
  conn_status :: connection_status
  apiKey :: "string option"
  email :: "string option"
  conn_model :: "string option"

text \<open>
  What the component receives from outside: the selected option, the connections of the
  application context (keyed by service id) and the network behind the adapter.
\<close>

record props =
  selectedOption :: option_card
  connections :: "(string \<times> AIConnection) list"
  net :: network

datatype step_status = pending | processing | completed | user_input

record WorkflowStep =
  step_id :: string
  role :: string
  roleName :: string
  assignedAI :: "string option"
  prompt :: string
  response :: "string option"
  status :: step_status

datatype toast = ToastError string | ToastSuccess string

text \<open>
  The seven state cells of the component, then the two logs of its effects: the toasts shown
  and the requests sent, oldest first. \<open>roleAssignments\<close> is an object whose keys keep
  their insertion order: an association list with distinct keys.
\<close>

record garage =
  roleAssignments :: "(string \<times> string) list"
  workflowSteps :: "WorkflowStep list"
  currentStep :: nat
  userPrompt :: string
  workflowStarted :: bool
  additionalInput :: string
  showAddMore :: bool
  toasts :: "toast list"
  calls :: "request list"

text \<open>\<open>ROLE_DEFINITIONS[selectedOption.id] || {}\<close>\<close>

definition roles :: "props \<Rightarrow> (string \<times> role_def) list" where
  "roles env =
    (case map_of ROLE_DEFINITIONS (option_id (selectedOption env)) of None \<Rightarrow> [] | Some r \<Rightarrow> r)"

text \<open>The list both the mount effect and \<open>resetWorkflow\<close> build from \<open>Object.keys(roles)\<close>.\<close>

definition fresh_steps :: "props \<Rightarrow> WorkflowStep list" where
  "fresh_steps env =
    map (\<lambda>(roleId, r). \<lparr>step_id = roleId, role = roleId, roleName = name r, assignedAI = None,
                          prompt = [], response = None, status = pending\<rparr>) (roles env)"

definition mount :: "props \<Rightarrow> garage" where
  "mount env =
    \<lparr>roleAssignments = [], workflowSteps = fresh_steps env, currentStep = 0, userPrompt = [],
     workflowStarted = False, additionalInput = [], showAddMore = False, toasts = [], calls = []\<rparr>"

subsection \<open>Handlers\<close>

text \<open>\<open>prev => ({ ...prev, [roleId]: aiId })\<close>\<close>

definition handleRoleAssignment :: "string \<Rightarrow> string \<Rightarrow> garage \<Rightarrow> garage" where
  "handleRoleAssignment roleId aiId s =
    s\<lparr>roleAssignments := AList.update roleId aiId (roleAssignments s)\<rparr>"

text \<open>\<open>Object.keys(roleAssignments).filter(role => roleAssignments[role])\<close>\<close>

definition assignedRoles :: "garage \<Rightarrow> string list" where
  "assignedRoles s =
    filter (\<lambda>r. truthy (map_of (roleAssignments s) r) \<noteq> None) (map fst (roleAssignments s))"

definition validateSetup :: "garage \<Rightarrow> bool" where
  "validateSetup s = (length (assignedRoles s) \<ge> 2 \<and> length (trim (userPrompt s)) > 0)"

text \<open>\<open>prev.map((s, i) => i === stepIndex ? f(s) : s)\<close>\<close>

definition map_at :: "nat \<Rightarrow> ('a \<Rightarrow> 'a) \<Rightarrow> 'a list \<Rightarrow> 'a list" where
  "map_at stepIndex f prev = map (\<lambda>(i, s). if i = stepIndex then f s else s) (enumerate 0 prev)"

text \<open>The message of the TypeError a property read on \<open>undefined\<close> throws (V8's wording).\<close>

definition cannot_read :: "string \<Rightarrow> string" where
  "cannot_read p =
    ''Cannot read properties of undefined (reading '' @ [CHR 0x27] @ p @ [CHR 0x27] @ '')''"

definition createRolePrompt :: "props \<Rightarrow> WorkflowStep \<Rightarrow> string \<Rightarrow> nat \<Rightarrow> exn + string" where
  "createRolePrompt env step inputPrompt stepIndex =
    (let roleContext = map_of (roles env) (role step)
     in if stepIndex = 0 then
          (case roleContext of
             None \<Rightarrow> Inl (TypeError (cannot_read ''name''))
           | Some rc \<Rightarrow>
               Inr (''You are a '' @ name rc @ ''. Your role: '' @ description rc
                    @ ''. The overall goal is to '' @ title (selectedOption env)
                    @ ''. User Request: '' @ [CHR 0x22] @ inputPrompt @ [CHR 0x22]
                    @ ''. Please refine and structure this request into clear objectives for the team.''))
        else Inr inputPrompt)"

definition createNextStepPrompt ::
  "props \<Rightarrow> WorkflowStep list \<Rightarrow> WorkflowStep \<Rightarrow> string \<Rightarrow> nat \<Rightarrow> exn + string" where
  "createNextStepPrompt env steps current currentResponse nextStepIndex =
    (if nextStepIndex \<ge> length steps then Inl (TypeError (cannot_read ''role''))
     else
       (let nextStep = steps ! nextStepIndex
        in case map_of (roles env) (role nextStep) of
             None \<Rightarrow> Inl (TypeError (cannot_read ''name''))
           | Some nextRole \<Rightarrow>
               Inr (''You are a '' @ name nextRole @ ''. Your role: '' @ description nextRole
                    @ ''. The previous step was completed by '' @ roleName current
                    @ '', who provided the following: '' @ [CHR 0x22] @ currentResponse @ [CHR 0x22]
                    @ ''. Based on this, please perform your task.'')))"

text \<open>The \<open>catch\<close> block of \<open>processStep\<close>.\<close>

definition step_failed :: "WorkflowStep \<Rightarrow> nat \<Rightarrow> exn \<Rightarrow> garage \<Rightarrow> garage" where
  "step_failed step stepIndex err s =
    s\<lparr>workflowSteps := map_at stepIndex (\<lambda>st. st\<lparr>status := pending\<rparr>) (workflowSteps s),
      toasts := toasts s @ [ToastError (''Error in '' @ roleName step @ '': '' @ message err)]\<rparr>"

text \<open>
  \<open>processStep\<close> runs to the end of the chain it starts: the stage, and after a success at
  an index above 0 the next stage from the timer callback, with no other event in between.
  A TypeError inside the timer callback is caught by nobody and changes nothing.
\<close>

function processStep :: "props \<Rightarrow> nat \<Rightarrow> string \<Rightarrow> garage \<Rightarrow> garage" where
  "processStep env stepIndex inputPrompt s =
    (if stepIndex \<ge> length (workflowSteps s) then s
     else
       (let step = workflowSteps s ! stepIndex
        in case truthy (map_of (roleAssignments s) (role step)) of
             None \<Rightarrow> s\<lparr>toasts := toasts s @ [ToastError (''No AI assigned to role '' @ role step)]\<rparr>
           | Some assignedAIId \<Rightarrow>
               (let connection = map_of (connections env) assignedAIId
                in case truthy (Option.bind connection apiKey) of
                     None \<Rightarrow> s\<lparr>toasts := toasts s @ [ToastError (''API key not found for '' @ assignedAIId)]\<rparr>
                   | Some key \<Rightarrow>
                       (let s1 = s\<lparr>workflowSteps :=
                                     map_at stepIndex (\<lambda>st. st\<lparr>status := processing, prompt := inputPrompt\<rparr>)
                                       (workflowSteps s),
                                   currentStep := stepIndex\<rparr>
                        in case createRolePrompt env step inputPrompt stepIndex of
                             Inl err \<Rightarrow> step_failed step stepIndex err s1
                           | Inr rolePrompt \<Rightarrow>
                               (let result = callAIService (net env) (length (calls s1)) assignedAIId rolePrompt key
                                               (Option.bind connection conn_model) None;
                                    s2 = s1\<lparr>calls := calls s1 @ snd result\<rparr>
                                in case fst result of
                                     Inl err \<Rightarrow> step_failed step stepIndex err s2
                                   | Inr resp \<Rightarrow>
                                       (let newStatus = (if stepIndex = 0 then user_input else completed);
                                            s3 = s2\<lparr>workflowSteps :=
                                                      map_at stepIndex
                                                        (\<lambda>st. st\<lparr>status := newStatus, response := Some (content resp)\<rparr>)
                                                        (workflowSteps s2)\<rparr>
                                        in if newStatus = user_input then s3\<lparr>showAddMore := True\<rparr>
                                           else if stepIndex + 1 < length (workflowSteps s) then
                                             (case createNextStepPrompt env (workflowSteps s) step (content resp)
                                                     (stepIndex + 1) of
                                                Inl err \<Rightarrow> s3
                                              | Inr nextPrompt \<Rightarrow> processStep env (stepIndex + 1) nextPrompt s3)
                                           else s3\<lparr>toasts := toasts s3 @ [ToastSuccess ''Workflow completed successfully!'']\<rparr>))))))"
  by pat_completeness auto

termination processStep
  by (relation "measure (\<lambda>(env, stepIndex, inputPrompt, s). length (workflowSteps s) - stepIndex)")
     (simp_all add: map_at_def)

declare processStep.simps [simp del]

definition startWorkflow :: "props \<Rightarrow> garage \<Rightarrow> garage" where
  "startWorkflow env s =
    (if \<not> validateSetup s then
       s\<lparr>toasts := toasts s @ [ToastError ''Please assign at least 2 AIs and enter a task description!'']\<rparr>
     else processStep env 0 (userPrompt s) (s\<lparr>workflowStarted := True\<rparr>))"

text \<open>\<open>workflowSteps.find(s => s.id === 'A')?.prompt || userPrompt\<close>\<close>

definition currentPromptForStep0 :: "garage \<Rightarrow> string" where
  "currentPromptForStep0 s =
    or_else (map_option prompt (find (\<lambda>st. step_id st = ''A'') (workflowSteps s))) (userPrompt s)"

definition handleAddMore :: "props \<Rightarrow> garage \<Rightarrow> garage" where
  "handleAddMore env s =
    (if trim (additionalInput s) = [] then
       s\<lparr>toasts := toasts s @ [ToastError ''Please enter additional requirements!'']\<rparr>
     else
       (let combinedPrompt =
              currentPromptForStep0 s @ [CHR 0x0A, CHR 0x0A] @ ''Additional requirements: ''
                @ additionalInput s
        in processStep env 0 combinedPrompt (s\<lparr>additionalInput := [], showAddMore := False\<rparr>)))"

text \<open>
  A TypeError thrown in the click handler (no step at \<open>currentStep\<close>, or none after it) is
  caught by nobody; the state updates queued before it stay.
\<close>

definition handlePassToNext :: "props \<Rightarrow> garage \<Rightarrow> garage" where
  "handlePassToNext env s =
    (if currentStep s \<ge> length (workflowSteps s) then s
     else
       (let currentStepData = workflowSteps s ! currentStep s
        in case truthy (response currentStepData) of
             None \<Rightarrow> s
           | Some r \<Rightarrow>
               (case createNextStepPrompt env (workflowSteps s) currentStepData r (currentStep s + 1) of
                  Inl err \<Rightarrow> s\<lparr>showAddMore := False\<rparr>
                | Inr nextPrompt \<Rightarrow>
                    processStep env (currentStep s + 1) nextPrompt (s\<lparr>showAddMore := False\<rparr>))))"

definition resetWorkflow :: "props \<Rightarrow> garage \<Rightarrow> garage" where
  "resetWorkflow env s =
    s\<lparr>workflowStarted := False, currentStep := 0, userPrompt := [], additionalInput := [],
      showAddMore := False, roleAssignments := [], workflowSteps := fresh_steps env\<rparr>"

section \<open>Concrete inputs\<close>

text \<open>The id and title of the four cards of \<open>GARAGE_OPTIONS\<close>.\<close>

definition GARAGE_OPTIONS :: "option_card list" where
  "GARAGE_OPTIONS =
    [\<lparr>option_id = ''build'', title = ''Create/Build App''\<rparr>,
     \<lparr>option_id = ''research'', title = ''Research & Analysis''\<rparr>,
     \<lparr>option_id = ''math'', title = ''Solve Math Problem''\<rparr>,
     \<lparr>option_id = ''ideas'', title = ''Creative Ideation''\<rparr>]"

text \<open>Well-formed payloads carrying a given text, one per response schema.\<close>

definition chat_reply :: "string \<Rightarrow> chat_completion" where
  "chat_reply t =
    \<lparr>choices = [\<lparr>choice_message = Some \<lparr>msg_content = Some t\<rparr>\<rparr>],
     chat_usage = Some \<lparr>total_tokens = Some 42\<rparr>, chat_model = Some ''gpt-4o-mini''\<rparr>"

definition message_reply :: "string \<Rightarrow> anthropic_message" where
  "message_reply t =
    \<lparr>msg_blocks = [\<lparr>block_text = Some t\<rparr>],
     msg_usage = Some \<lparr>input_tokens = Some 12, output_tokens = Some 30\<rparr>,
     msg_model = Some ''claude-3-haiku-20240307''\<rparr>"

definition gemini_reply :: "string \<Rightarrow> gemini_response" where
  "gemini_reply t =
    \<lparr>candidates = Some [\<lparr>candidate_content = Some \<lparr>parts = Some [\<lparr>part_text = Some t\<rparr>]\<rparr>\<rparr>],
     usageMetadata = Some \<lparr>totalTokenCount = Some 42\<rparr>\<rparr>"

text \<open>
  A network that follows a script: the \<open>n\<close>-th request is answered by the \<open>n\<close>-th entry,
  a text or a rejection, and every request after the script is rejected.
\<close>

definition offline :: axios_error where
  "offline = \<lparr>response_message = None, error_message = ''Network Error''\<rparr>"

definition invalid_key :: axios_error where
  "invalid_key = \<lparr>response_message = Some ''Incorrect API key provided'',
                   error_message = ''Request failed with status code 401''\<rparr>"

definition scripted :: "(axios_error + string) list \<Rightarrow> network" where
  "scripted script =
    \<lparr>chat_completions = (\<lambda>n req. if n < length script then map_sum id chat_reply (script ! n) else Inl offline),
     messages = (\<lambda>n req. if n < length script then map_sum id message_reply (script ! n) else Inl offline),
     generateContent = (\<lambda>n req. if n < length script then map_sum id gemini_reply (script ! n) else Inl offline)\<rparr>"

definition key_for :: "string \<Rightarrow> string \<times> AIConnection" where
  "key_for serviceId =
    (serviceId, \<lparr>conn_id = serviceId, conn_status = conn_connected, apiKey = Some ''sk-test'',
                 email = None, conn_model = None\<rparr>)"

text \<open>The build workflow with every role given to one of two connected services.\<close>

definition build_env :: "(axios_error + string) list \<Rightarrow> props" where
  "build_env script =
    \<lparr>selectedOption = \<lparr>option_id = ''build'', title = ''Create/Build App''\<rparr>,
     connections = [key_for ''openai'', key_for ''anthropic''],
     net = scripted script\<rparr>"

definition all_assigned :: "garage \<Rightarrow> garage" where
  "all_assigned s =
    handleRoleAssignment ''E'' ''anthropic'' (handleRoleAssignment ''D'' ''openai''
      (handleRoleAssignment ''C'' ''anthropic'' (handleRoleAssignment ''B'' ''openai''
        (handleRoleAssignment ''A'' ''openai'' s))))"

text \<open>One role assigned and a prompt typed: the setup the start button rejects.\<close>

definition one_assigned :: garage where
  "one_assigned =
    (handleRoleAssignment ''A'' ''openai'' (mount (build_env [])))\<lparr>userPrompt := ''build me an app''\<rparr>"

definition build_ready :: "(axios_error + string) list \<Rightarrow> garage" where
  "build_ready script = (all_assigned (mount (build_env script)))\<lparr>userPrompt := ''build a todo app''\<rparr>"

text \<open>A Messages payload that carries text and no \<open>usage\<close> object, and a network that sends it.\<close>

definition no_usage_message :: anthropic_message where
  "no_usage_message =
    \<lparr>msg_blocks = [\<lparr>block_text = Some ''Hello!''\<rparr>], msg_usage = None,
     msg_model = Some ''claude-3-haiku-20240307''\<rparr>"

definition no_usage_net :: network where
  "no_usage_net =
    \<lparr>chat_completions = (\<lambda>n req. Inl offline), messages = (\<lambda>n req. Inr no_usage_message),
     generateContent = (\<lambda>n req. Inl offline)\<rparr>"

text \<open>A network whose payloads are well-formed and carry no text at all.\<close>

definition silent_net :: network where
  "silent_net =
    \<lparr>chat_completions = (\<lambda>n req. Inr \<lparr>choices = [], chat_usage = None, chat_model = None\<rparr>),
     messages = (\<lambda>n req. Inr \<lparr>msg_blocks = [\<lparr>block_text = Some []\<rparr>], msg_usage = None, msg_model = None\<rparr>),
     generateContent = (\<lambda>n req. Inr \<lparr>candidates = None, usageMetadata = None\<rparr>)\<rparr>"

text \<open>A script of five answers, and the build workflow after its start button was pressed.\<close>

definition five_replies :: "(axios_error + string) list" where
  "five_replies = [Inr ''spec'', Inr ''api'', Inr ''ui'', Inr ''review'', Inr ''docs'']"

definition after_start :: "(axios_error + string) list \<Rightarrow> garage" where
  "after_start script = startWorkflow (build_env script) (build_ready script)"

section \<open>Properties of the adapter\<close>

lemma or_else_nonempty: "d \<noteq> [] \<Longrightarrow> or_else v d \<noteq> []"
  by (cases v) (auto simp: or_else_def)

lemma call_content_nonempty:
  assumes "fst (callAIService nw n serviceId p key mdl img) = Inr r"
  shows "content r \<noteq> []"
  using assms
  by (auto simp: callAIService_def callOpenAI_def callAnthropic_def callGoogle_def callGroq_def
        gemini_post_def Let_def or_else_nonempty split: if_splits sum.splits option.splits)

lemma call_requests_le1: "length (snd (callAIService nw n serviceId p key mdl img)) \<le> 1"
  by (auto simp: callAIService_def callOpenAI_def callAnthropic_def callGoogle_def callGroq_def
        gemini_post_def Let_def split: option.splits)

text \<open>
  When the Messages payload reports both counts, the token field of the result is their sum.
\<close>

lemma anthropic_tokens_reported:
  assumes "messages nw n (anthropic_request p key mdl) = Inr a"
    and "msg_usage a = Some u" and "input_tokens u = Some tin" and "output_tokens u = Some tout"
  shows "\<exists>r. fst (callAnthropic nw n p key mdl) = Inr r \<and> tokens r = Some (Num (tin + tout))"
  using assms by (simp add: callAnthropic_def anthropic_tokens_def)

text \<open>
  C8, at a Messages payload with text and no \<open>usage\<close> object: the token field of the result
  is present and holds \<open>NaN\<close>, where the claim wants it absent.
\<close>

theorem anthropic_tokens_without_usage:
  "map_sum id tokens (fst (callAnthropic no_usage_net 0 ''Hello'' ''sk-ant-test''
      (Some ''claude-3-haiku-20240307''))) = Inr (Some NaN)"
  by (simp add: callAnthropic_def no_usage_net_def no_usage_message_def anthropic_tokens_def)

text \<open>
  C9: whatever the adapter returns as a result has a non-empty content; and for each of the
  four providers, a payload of the provider's schema never makes the call fail: the content
  is the payload's text when that text is there and not empty, and the literal
  \<open>No response\<close> otherwise.
\<close>

theorem adapter_content:
  "(fst (callAIService nw n serviceId p key mdl img) = Inr r \<longrightarrow> content r \<noteq> [])
   \<and> (chat_completions nw n (openai_request p key mdl) = Inr c \<longrightarrow>
        (\<exists>r. fst (callOpenAI nw n p key mdl) = Inr r
           \<and> content r = (case truthy (chat_text c) of Some t \<Rightarrow> t | None \<Rightarrow> ''No response'')))
   \<and> (messages nw n (anthropic_request p key mdl) = Inr a \<longrightarrow>
        (\<exists>r. fst (callAnthropic nw n p key mdl) = Inr r
           \<and> content r = (case truthy (anthropic_text a) of Some t \<Rightarrow> t | None \<Rightarrow> ''No response'')))
   \<and> (generateContent nw n (gemini_request p key mdl None) = Inr g \<longrightarrow>
        (\<exists>r. fst (callGoogle nw n p key mdl None) = Inr r
           \<and> content r = (case truthy (gemini_text g) of Some t \<Rightarrow> t | None \<Rightarrow> ''No response'')))
   \<and> (chat_completions nw n (groq_request p key mdl) = Inr c' \<longrightarrow>
        (\<exists>r. fst (callGroq nw n p key mdl) = Inr r
           \<and> content r = (case truthy (chat_text c') of Some t \<Rightarrow> t | None \<Rightarrow> ''No response'')))"
  by (auto simp: call_content_nonempty callOpenAI_def callAnthropic_def callGoogle_def callGroq_def
        gemini_post_def Let_def or_else_def split: option.splits)

theorem adapter_content_witness:
  "content (projr (fst (callAIService (scripted [Inr ''hello'']) 0 ''openai'' ''Hello'' ''sk-test'' None None))) \<noteq> []
   \<and> (\<exists>r. fst (callOpenAI (scripted [Inr ''hello'']) 0 ''Hello'' ''sk-test'' None) = Inr r \<and> content r = ''hello'')
   \<and> (\<exists>r. fst (callAnthropic (scripted [Inr ''hello'']) 0 ''Hello'' ''sk-test'' None) = Inr r \<and> content r = ''hello'')
   \<and> (\<exists>r. fst (callGoogle (scripted [Inr ''hello'']) 0 ''Hello'' ''sk-test'' None None) = Inr r \<and> content r = ''hello'')
   \<and> (\<exists>r. fst (callGroq (scripted [Inr ''hello'']) 0 ''Hello'' ''sk-test'' None) = Inr r \<and> content r = ''hello'')
   \<and> (\<exists>r. fst (callOpenAI silent_net 0 ''Hello'' ''sk-test'' None) = Inr r \<and> content r = ''No response'')
   \<and> (\<exists>r. fst (callAnthropic silent_net 0 ''Hello'' ''sk-test'' None) = Inr r \<and> content r = ''No response'')
   \<and> (\<exists>r. fst (callGoogle silent_net 0 ''Hello'' ''sk-test'' None None) = Inr r \<and> content r = ''No response'')"
proof -
  let ?nw = "scripted [Inr ''hello'']"
  have r: "fst (callAIService ?nw 0 ''openai'' ''Hello'' ''sk-test'' None None)
            = Inr (projr (fst (callAIService ?nw 0 ''openai'' ''Hello'' ''sk-test'' None None)))"
    by (simp add: callAIService_def callOpenAI_def scripted_def)
  have c: "chat_completions ?nw 0 (openai_request ''Hello'' ''sk-test'' None) = Inr (chat_reply ''hello'')"
    by (simp add: scripted_def)
  have a: "messages ?nw 0 (anthropic_request ''Hello'' ''sk-test'' None) = Inr (message_reply ''hello'')"
    by (simp add: scripted_def)
  have g: "generateContent ?nw 0 (gemini_request ''Hello'' ''sk-test'' None None) = Inr (gemini_reply ''hello'')"
    by (simp add: scripted_def)
  have c': "chat_completions ?nw 0 (groq_request ''Hello'' ''sk-test'' None) = Inr (chat_reply ''hello'')"
    by (simp add: scripted_def)
  have sc: "chat_completions silent_net 0 (openai_request ''Hello'' ''sk-test'' None)
              = Inr \<lparr>choices = [], chat_usage = None, chat_model = None\<rparr>"
    by (simp add: silent_net_def)
  have sa: "messages silent_net 0 (anthropic_request ''Hello'' ''sk-test'' None)
              = Inr \<lparr>msg_blocks = [\<lparr>block_text = Some []\<rparr>], msg_usage = None, msg_model = None\<rparr>"
    by (simp add: silent_net_def)
  have sg: "generateContent silent_net 0 (gemini_request ''Hello'' ''sk-test'' None None)
              = Inr \<lparr>candidates = None, usageMetadata = None\<rparr>"
    by (simp add: silent_net_def)
  from adapter_content [of ?nw 0 "''openai''" "''Hello''" "''sk-test''" None None
      "projr (fst (callAIService ?nw 0 ''openai'' ''Hello'' ''sk-test'' None None))"
      "chat_reply ''hello''" "message_reply ''hello''" "gemini_reply ''hello''" "chat_reply ''hello''"]
    r c a g c'
  have 1: "content (projr (fst (callAIService ?nw 0 ''openai'' ''Hello'' ''sk-test'' None None))) \<noteq> []
   \<and> (\<exists>r. fst (callOpenAI ?nw 0 ''Hello'' ''sk-test'' None) = Inr r \<and> content r = ''hello'')
   \<and> (\<exists>r. fst (callAnthropic ?nw 0 ''Hello'' ''sk-test'' None) = Inr r \<and> content r = ''hello'')
   \<and> (\<exists>r. fst (callGoogle ?nw 0 ''Hello'' ''sk-test'' None None) = Inr r \<and> content r = ''hello'')
   \<and> (\<exists>r. fst (callGroq ?nw 0 ''Hello'' ''sk-test'' None) = Inr r \<and> content r = ''hello'')"
    by (simp add: chat_reply_def message_reply_def gemini_reply_def chat_text_def anthropic_text_def
          gemini_text_def)
  from adapter_content [of silent_net 0 "''groq''" "''Hello''" "''sk-test''" None None
      "projr (fst (callAIService silent_net 0 ''groq'' ''Hello'' ''sk-test'' None None))"
      "\<lparr>choices = [], chat_usage = None, chat_model = None\<rparr>"
      "\<lparr>msg_blocks = [\<lparr>block_text = Some []\<rparr>], msg_usage = None, msg_model = None\<rparr>"
      "\<lparr>candidates = None, usageMetadata = None\<rparr>"
      "\<lparr>choices = [], chat_usage = None, chat_model = None\<rparr>"]
    sc sa sg
  have 2: "(\<exists>r. fst (callOpenAI silent_net 0 ''Hello'' ''sk-test'' None) = Inr r \<and> content r = ''No response'')
   \<and> (\<exists>r. fst (callAnthropic silent_net 0 ''Hello'' ''sk-test'' None) = Inr r \<and> content r = ''No response'')
   \<and> (\<exists>r. fst (callGoogle silent_net 0 ''Hello'' ''sk-test'' None None) = Inr r \<and> content r = ''No response'')"
    by (simp add: chat_text_def anthropic_text_def gemini_text_def)
  from 1 2 show ?thesis by simp
qed

text \<open>
  C10: a service id that is none of the four is rejected with an error that names it, and
  no request is issued, whatever the prompt, key, model and image.
\<close>

theorem unsupported_service_rejected:
  assumes "serviceId \<notin> {''openai'', ''anthropic'', ''google'', ''groq''}"
  shows "callAIService nw n serviceId p key mdl img
           = (Inl (Error (''Unsupported AI service: '' @ serviceId)), [])"
  using assms by (simp add: callAIService_def)

theorem unsupported_service_rejected_witness:
  "''mistral'' \<notin> {''openai'', ''anthropic'', ''google'', ''groq''}
   \<and> callAIService (scripted [Inr ''hello'']) 0 ''mistral'' ''Hello'' ''sk-test'' (Some ''mistral-large'')
         (Some \<lparr>file_type = ''image/png'', file_base64 = Some ''AAAA''\<rparr>)
       = (Inl (Error ''Unsupported AI service: mistral''), [])"
proof -
  have h: "''mistral'' \<notin> {''openai'', ''anthropic'', ''google'', ''groq''}" by simp
  show ?thesis using h unsupported_service_rejected [OF h] by simp
qed

section \<open>Properties of the stage sequencer\<close>

subsection \<open>One stage, and what a chain leaves alone\<close>

lemma map_at_eq: "map_at i f xs = (if i < length xs then xs[i := f (xs ! i)] else xs)"
  unfolding map_at_def
  by (auto simp: list_eq_iff_nth_eq nth_enumerate_eq)

lemma length_map_at: "length (map_at i f xs) = length xs"
  by (simp add: map_at_def)

lemma processStep_failure:
  assumes "stepIndex < length (workflowSteps s)"
    and "truthy (map_of (roleAssignments s) (role (workflowSteps s ! stepIndex))) = Some ai"
    and "truthy (Option.bind (map_of (connections env) ai) apiKey) = Some key"
    and "createRolePrompt env (workflowSteps s ! stepIndex) inputPrompt stepIndex = Inr rolePrompt"
    and "callAIService (net env) (length (calls s)) ai rolePrompt key
           (Option.bind (map_of (connections env) ai) conn_model) None = (Inl err, reqs)"
  shows "processStep env stepIndex inputPrompt s =
          s\<lparr>workflowSteps := (workflowSteps s)[stepIndex :=
                (workflowSteps s ! stepIndex)\<lparr>status := pending, prompt := inputPrompt\<rparr>],
            currentStep := stepIndex,
            calls := calls s @ reqs,
            toasts := toasts s @ [ToastError (''Error in '' @ roleName (workflowSteps s ! stepIndex)
                                               @ '': '' @ message err)]\<rparr>"
  using assms
  by (subst processStep.simps)
     (auto simp: Let_def step_failed_def map_at_eq intro!: garage.equality WorkflowStep.equality
        arg_cong [where f = "list_update _ _"])

lemma processStep_success:
  assumes "stepIndex < length (workflowSteps s)"
    and "truthy (map_of (roleAssignments s) (role (workflowSteps s ! stepIndex))) = Some ai"
    and "truthy (Option.bind (map_of (connections env) ai) apiKey) = Some key"
    and "createRolePrompt env (workflowSteps s ! stepIndex) inputPrompt stepIndex = Inr rolePrompt"
    and "callAIService (net env) (length (calls s)) ai rolePrompt key
           (Option.bind (map_of (connections env) ai) conn_model) None = (Inr resp, reqs)"
  shows "processStep env stepIndex inputPrompt s =
          (let s3 = s\<lparr>workflowSteps := (workflowSteps s)[stepIndex :=
                        (workflowSteps s ! stepIndex)
                          \<lparr>status := (if stepIndex = 0 then user_input else completed),
                           prompt := inputPrompt, response := Some (content resp)\<rparr>],
                      currentStep := stepIndex,
                      calls := calls s @ reqs\<rparr>
           in if stepIndex = 0 then s3\<lparr>showAddMore := True\<rparr>
              else if stepIndex + 1 < length (workflowSteps s) then
                (case createNextStepPrompt env (workflowSteps s) (workflowSteps s ! stepIndex)
                        (content resp) (stepIndex + 1) of
                   Inl err \<Rightarrow> s3
                 | Inr nextPrompt \<Rightarrow> processStep env (stepIndex + 1) nextPrompt s3)
              else s3\<lparr>toasts := toasts s @ [ToastSuccess ''Workflow completed successfully!'']\<rparr>)"
  using assms
  by (subst processStep.simps)
     (auto simp: Let_def map_at_eq split: sum.splits intro!: garage.equality WorkflowStep.equality
        arg_cong [where f = "list_update _ _"] arg_cong [where f = "processStep _ _ _"])

lemma processStep_length:
  "length (workflowSteps (processStep env stepIndex inputPrompt s)) = length (workflowSteps s)"
proof (induction "length (workflowSteps s) - stepIndex" arbitrary: stepIndex inputPrompt s
        rule: less_induct)
  case less
  show ?case
    by (subst processStep.simps)
       (simp add: Let_def step_failed_def length_map_at less split: option.splits sum.splits)
qed

lemma processStep_below:
  "j < stepIndex \<Longrightarrow>
     workflowSteps (processStep env stepIndex inputPrompt s) ! j = workflowSteps s ! j"
proof (induction "length (workflowSteps s) - stepIndex" arbitrary: stepIndex inputPrompt s
        rule: less_induct)
  case less
  from less.prems show ?case
    by (subst processStep.simps)
       (simp add: Let_def step_failed_def map_at_eq less.hyps split: option.splits sum.splits)
qed

lemma processStep_started:
  "workflowStarted (processStep env stepIndex inputPrompt s) = workflowStarted s"
proof (induction "length (workflowSteps s) - stepIndex" arbitrary: stepIndex inputPrompt s
        rule: less_induct)
  case less
  show ?case
    by (subst processStep.simps)
       (simp add: Let_def step_failed_def length_map_at less split: option.splits sum.splits)
qed

subsection \<open>Stage status\<close>

text \<open>
  C1: a stage whose provider call succeeds ends the chain it started in status
  \<open>user_input\<close> (awaiting the user's decision) when its index is 0 and in status
  \<open>completed\<close> when its index is above 0, for every selected option. The run gets as far
  as the call when the stage exists, its role has a provider, the provider has a key and the
  prompt renders.
\<close>

theorem stage_status_after_success:
  assumes "stepIndex < length (workflowSteps s)"
    and "truthy (map_of (roleAssignments s) (role (workflowSteps s ! stepIndex))) = Some ai"
    and "truthy (Option.bind (map_of (connections env) ai) apiKey) = Some key"
    and "createRolePrompt env (workflowSteps s ! stepIndex) inputPrompt stepIndex = Inr rolePrompt"
    and "callAIService (net env) (length (calls s)) ai rolePrompt key
           (Option.bind (map_of (connections env) ai) conn_model) None = (Inr resp, reqs)"
  shows "status (workflowSteps (processStep env stepIndex inputPrompt s) ! stepIndex)
           = (if stepIndex = 0 then user_input else completed)"
proof (cases "stepIndex = 0")
  case True
  show ?thesis
    by (subst processStep_success [OF assms]) (use True assms(1) in simp)
next
  case False
  let ?s3 = "s\<lparr>workflowSteps := (workflowSteps s)[stepIndex :=
                        (workflowSteps s ! stepIndex)
                          \<lparr>status := completed,
                           prompt := inputPrompt, response := Some (content resp)\<rparr>],
                      currentStep := stepIndex,
                      calls := calls s @ reqs\<rparr>"
  have st: "status (workflowSteps ?s3 ! stepIndex) = completed"
    using assms(1) by simp
  have "workflowSteps (processStep env stepIndex inputPrompt s) ! stepIndex
          = workflowSteps ?s3 ! stepIndex"
    using False assms(1)
    by (simp add: processStep_success [OF assms] processStep_below Let_def split: sum.splits)
  with st False show ?thesis by simp
qed

theorem stage_status_after_success_witness:
  "status (workflowSteps (processStep (build_env five_replies) 0 ''build a todo app''
             (build_ready five_replies)) ! 0) = user_input
   \<and> status (workflowSteps (processStep (build_env five_replies) 1 ''write the backend''
               (after_start five_replies)) ! 1) = completed"
proof -
  let ?E = "build_env five_replies"
  let ?S = "build_ready five_replies"
  let ?T = "after_start five_replies"
  let ?q0 = "projr (createRolePrompt ?E (workflowSteps ?S ! 0) ''build a todo app'' 0)"
  let ?c0 = "callAIService (net ?E) (length (calls ?S)) ''openai'' ?q0 ''sk-test''
               (Option.bind (map_of (connections ?E) ''openai'') conn_model) None"
  let ?q1 = "projr (createRolePrompt ?E (workflowSteps ?T ! 1) ''write the backend'' 1)"
  let ?c1 = "callAIService (net ?E) (length (calls ?T)) ''openai'' ?q1 ''sk-test''
               (Option.bind (map_of (connections ?E) ''openai'') conn_model) None"
  have a1: "0 < length (workflowSteps ?S)" by code_simp
  have a2: "truthy (map_of (roleAssignments ?S) (role (workflowSteps ?S ! 0))) = Some ''openai''"
    by code_simp
  have a3: "truthy (Option.bind (map_of (connections ?E) ''openai'') apiKey) = Some ''sk-test''"
    by code_simp
  have a4: "createRolePrompt ?E (workflowSteps ?S ! 0) ''build a todo app'' 0 = Inr ?q0"
    by code_simp
  have a5: "?c0 = (Inr (projr (fst ?c0)), snd ?c0)" by code_simp
  have b1: "1 < length (workflowSteps ?T)" by code_simp
  have b2: "truthy (map_of (roleAssignments ?T) (role (workflowSteps ?T ! 1))) = Some ''openai''"
    by code_simp
  have b4: "createRolePrompt ?E (workflowSteps ?T ! 1) ''write the backend'' 1 = Inr ?q1"
    by code_simp
  have b5: "?c1 = (Inr (projr (fst ?c1)), snd ?c1)" by code_simp
  from stage_status_after_success [OF a1 a2 a3 a4 a5] stage_status_after_success [OF b1 b2 a3 b4 b5]
  show ?thesis by simp
qed

text \<open>
  C5: when the provider call of a stage fails, the stage is back in status \<open>pending\<close>,
  one error toast names the role and carries the message, at most the one request of the
  failed call was issued, and every other stage is as it was.
\<close>

theorem provider_failure:
  assumes "stepIndex < length (workflowSteps s)"
    and "truthy (map_of (roleAssignments s) (role (workflowSteps s ! stepIndex))) = Some ai"
    and "truthy (Option.bind (map_of (connections env) ai) apiKey) = Some key"
    and "createRolePrompt env (workflowSteps s ! stepIndex) inputPrompt stepIndex = Inr rolePrompt"
    and "callAIService (net env) (length (calls s)) ai rolePrompt key
           (Option.bind (map_of (connections env) ai) conn_model) None = (Inl err, reqs)"
  shows "status (workflowSteps (processStep env stepIndex inputPrompt s) ! stepIndex) = pending
    \<and> toasts (processStep env stepIndex inputPrompt s)
        = toasts s @ [ToastError (''Error in '' @ roleName (workflowSteps s ! stepIndex) @ '': '' @ message err)]
    \<and> calls (processStep env stepIndex inputPrompt s) = calls s @ reqs \<and> length reqs \<le> 1
    \<and> length (workflowSteps (processStep env stepIndex inputPrompt s)) = length (workflowSteps s)
    \<and> (\<forall>j. j \<noteq> stepIndex \<longrightarrow>
          workflowSteps (processStep env stepIndex inputPrompt s) ! j = workflowSteps s ! j)"
proof -
  have "length (snd (callAIService (net env) (length (calls s)) ai rolePrompt key
           (Option.bind (map_of (connections env) ai) conn_model) None)) \<le> 1"
    by (rule call_requests_le1)
  with assms(5) have "length reqs \<le> 1" by simp
  with assms(1) show ?thesis
    by (simp add: processStep_failure [OF assms])
qed

theorem provider_failure_witness:
  "status (workflowSteps (processStep (build_env [Inl invalid_key]) 0 ''build a todo app''
             (build_ready [Inl invalid_key])) ! 0) = pending
   \<and> toasts (processStep (build_env [Inl invalid_key]) 0 ''build a todo app'' (build_ready [Inl invalid_key]))
       = [ToastError ''Error in Prompt Refiner: OpenAI Error: Incorrect API key provided'']
   \<and> length (calls (processStep (build_env [Inl invalid_key]) 0 ''build a todo app''
                (build_ready [Inl invalid_key]))) = 1
   \<and> workflowSteps (processStep (build_env [Inl invalid_key]) 0 ''build a todo app''
        (build_ready [Inl invalid_key])) ! 1 = workflowSteps (build_ready [Inl invalid_key]) ! 1"
proof -
  let ?E = "build_env [Inl invalid_key]"
  let ?S = "build_ready [Inl invalid_key]"
  let ?q0 = "projr (createRolePrompt ?E (workflowSteps ?S ! 0) ''build a todo app'' 0)"
  let ?c0 = "callAIService (net ?E) (length (calls ?S)) ''openai'' ?q0 ''sk-test''
               (Option.bind (map_of (connections ?E) ''openai'') conn_model) None"
  have a1: "0 < length (workflowSteps ?S)" by code_simp
  have a2: "truthy (map_of (roleAssignments ?S) (role (workflowSteps ?S ! 0))) = Some ''openai''"
    by code_simp
  have a3: "truthy (Option.bind (map_of (connections ?E) ''openai'') apiKey) = Some ''sk-test''"
    by code_simp
  have a4: "createRolePrompt ?E (workflowSteps ?S ! 0) ''build a todo app'' 0 = Inr ?q0"
    by code_simp
  have a5: "?c0 = (Inl (Error ''OpenAI Error: Incorrect API key provided''), snd ?c0)" by code_simp
  have e1: "toasts ?S @ [ToastError (''Error in '' @ roleName (workflowSteps ?S ! 0) @ '': ''
                @ message (Error ''OpenAI Error: Incorrect API key provided''))]
            = [ToastError ''Error in Prompt Refiner: OpenAI Error: Incorrect API key provided'']"
    by code_simp
  have e2: "length (calls ?S @ snd ?c0) = 1" by code_simp
  from provider_failure [OF a1 a2 a3 a4 a5] e1 e2
  show ?thesis by simp
qed

subsection \<open>Guards\<close>

text \<open>
  C2: \<open>startWorkflow\<close> with fewer than two assigned roles, or with a prompt that is
  empty once trimmed, shows the error toast and changes nothing else: no request, no stage
  touched, not started. With both conditions met it sets the started flag and runs stage 0
  on the user prompt as typed.
\<close>

theorem start_validation:
  "(length (assignedRoles s) < 2 \<or> trim (userPrompt s) = [] \<longrightarrow>
      startWorkflow env s
        = s\<lparr>toasts := toasts s @ [ToastError ''Please assign at least 2 AIs and enter a task description!'']\<rparr>
      \<and> calls (startWorkflow env s) = calls s
      \<and> workflowSteps (startWorkflow env s) = workflowSteps s
      \<and> workflowStarted (startWorkflow env s) = workflowStarted s)
   \<and> (2 \<le> length (assignedRoles s) \<and> trim (userPrompt s) \<noteq> [] \<longrightarrow>
      startWorkflow env s = processStep env 0 (userPrompt s) (s\<lparr>workflowStarted := True\<rparr>)
      \<and> workflowStarted (startWorkflow env s))"
  by (auto simp: startWorkflow_def validateSetup_def processStep_started)

theorem start_validation_witness:
  "length (assignedRoles one_assigned) < 2
   \<and> startWorkflow (build_env []) one_assigned
       = one_assigned\<lparr>toasts := [ToastError ''Please assign at least 2 AIs and enter a task description!'']\<rparr>
   \<and> calls (startWorkflow (build_env []) one_assigned) = []
   \<and> 2 \<le> length (assignedRoles (build_ready [Inr ''spec'']))
   \<and> trim (userPrompt (build_ready [Inr ''spec''])) \<noteq> []
   \<and> workflowStarted (startWorkflow (build_env [Inr ''spec'']) (build_ready [Inr ''spec'']))
   \<and> prompt (workflowSteps (startWorkflow (build_env [Inr ''spec'']) (build_ready [Inr ''spec''])) ! 0)
       = ''build a todo app''"
proof -
  have a: "length (assignedRoles one_assigned) < 2" by code_simp
  have b: "toasts one_assigned = []" "calls one_assigned = []" by code_simp+
  have c: "2 \<le> length (assignedRoles (build_ready [Inr ''spec'']))" by code_simp
  have d: "trim (userPrompt (build_ready [Inr ''spec''])) \<noteq> []" by code_simp
  have e: "prompt (workflowSteps (processStep (build_env [Inr ''spec'']) 0 (userPrompt (build_ready [Inr ''spec'']))
              ((build_ready [Inr ''spec''])\<lparr>workflowStarted := True\<rparr>)) ! 0) = ''build a todo app''"
    by code_simp
  from a b start_validation [of one_assigned "build_env []"]
  have 1: "startWorkflow (build_env []) one_assigned
       = one_assigned\<lparr>toasts := [ToastError ''Please assign at least 2 AIs and enter a task description!'']\<rparr>
     \<and> calls (startWorkflow (build_env []) one_assigned) = []"
    by simp
  from c d start_validation [of "build_ready [Inr ''spec'']" "build_env [Inr ''spec'']"]
  have s: "startWorkflow (build_env [Inr ''spec'']) (build_ready [Inr ''spec''])
            = processStep (build_env [Inr ''spec'']) 0 (userPrompt (build_ready [Inr ''spec'']))
                ((build_ready [Inr ''spec''])\<lparr>workflowStarted := True\<rparr>)"
    and w: "workflowStarted (startWorkflow (build_env [Inr ''spec'']) (build_ready [Inr ''spec'']))"
    by blast+
  from e have 2: "prompt (workflowSteps (startWorkflow (build_env [Inr ''spec'']) (build_ready [Inr ''spec''])) ! 0)
       = ''build a todo app''"
    by (simp only: s)
  from a c d 1 2 w show ?thesis by blast
qed

text \<open>
  C6, as amended: with no stage at the index \<open>processStep\<close> returns the state untouched,
  without any toast; with a stage whose role has no provider it adds the one error toast
  that names the role and changes nothing else. In both cases no request is issued.
\<close>

theorem stage_guard:
  "(length (workflowSteps s) \<le> stepIndex \<longrightarrow> processStep env stepIndex inputPrompt s = s)
   \<and> (stepIndex < length (workflowSteps s)
        \<and> truthy (map_of (roleAssignments s) (role (workflowSteps s ! stepIndex))) = None \<longrightarrow>
      processStep env stepIndex inputPrompt s
        = s\<lparr>toasts := toasts s @
              [ToastError (''No AI assigned to role '' @ role (workflowSteps s ! stepIndex))]\<rparr>)"
  by (auto simp: processStep.simps [of env stepIndex inputPrompt s] Let_def)

theorem stage_guard_witness:
  "processStep (build_env []) 5 ''review the code'' (build_ready []) = build_ready []
   \<and> processStep (build_env []) 1 ''write the API'' one_assigned
       = one_assigned\<lparr>toasts := [ToastError ''No AI assigned to role B'']\<rparr>"
proof -
  have a: "length (workflowSteps (build_ready [])) \<le> 5" by code_simp
  have b: "1 < length (workflowSteps one_assigned)
        \<and> truthy (map_of (roleAssignments one_assigned) (role (workflowSteps one_assigned ! 1))) = None"
    by code_simp
  have c: "toasts one_assigned @ [ToastError (''No AI assigned to role '' @ role (workflowSteps one_assigned ! 1))]
           = [ToastError ''No AI assigned to role B'']"
    by code_simp
  from a stage_guard [of "build_ready []" 5 "build_env []" "''review the code''"]
  have 1: "processStep (build_env []) 5 ''review the code'' (build_ready []) = build_ready []"
    by simp
  from b c stage_guard [of one_assigned 1 "build_env []" "''write the API''"]
  have 2: "processStep (build_env []) 1 ''write the API'' one_assigned
       = one_assigned\<lparr>toasts := [ToastError ''No AI assigned to role B'']\<rparr>"
    by simp
  from 1 2 show ?thesis by simp
qed

text \<open>
  C6 as stated fails: at index 5 of the five-stage build workflow there is no stage, and
  the call reports nothing.
\<close>

theorem no_stage_is_silent:
  "length (workflowSteps (build_ready [])) \<le> 5
   \<and> toasts (processStep (build_env []) 5 ''review the code'' (build_ready [])) = []"
  by code_simp

subsection \<open>Reset\<close>

text \<open>
  C7: after \<open>resetWorkflow\<close> every stage is pending with an empty prompt and no
  response, there is one stage per role of the selected option, no role is assigned, the run
  is not started, and a second reset changes nothing.
\<close>

theorem reset_clears:
  "(\<forall>st \<in> set (workflowSteps (resetWorkflow env s)).
       status st = pending \<and> prompt st = [] \<and> response st = None)
   \<and> map role (workflowSteps (resetWorkflow env s)) = map fst (roles env)
   \<and> roleAssignments (resetWorkflow env s) = []
   \<and> \<not> workflowStarted (resetWorkflow env s)
   \<and> resetWorkflow env (resetWorkflow env s) = resetWorkflow env s"
  by (auto simp: resetWorkflow_def fresh_steps_def)

theorem reset_clears_witness:
  "workflowStarted (after_start five_replies)
   \<and> roleAssignments (after_start five_replies) \<noteq> []
   \<and> map status (workflowSteps (after_start five_replies)) = [user_input, pending, pending, pending, pending]
   \<and> status (workflowSteps (resetWorkflow (build_env five_replies) (after_start five_replies)) ! 0) = pending
   \<and> prompt (workflowSteps (resetWorkflow (build_env five_replies) (after_start five_replies)) ! 0) = []
   \<and> response (workflowSteps (resetWorkflow (build_env five_replies) (after_start five_replies)) ! 0) = None
   \<and> map role (workflowSteps (resetWorkflow (build_env five_replies) (after_start five_replies)))
       = [''A'', ''B'', ''C'', ''D'', ''E'']
   \<and> roleAssignments (resetWorkflow (build_env five_replies) (after_start five_replies)) = []
   \<and> \<not> workflowStarted (resetWorkflow (build_env five_replies) (after_start five_replies))
   \<and> resetWorkflow (build_env five_replies)
        (resetWorkflow (build_env five_replies) (after_start five_replies))
       = resetWorkflow (build_env five_replies) (after_start five_replies)"
proof -
  let ?R = "resetWorkflow (build_env five_replies) (after_start five_replies)"
  have a: "workflowStarted (after_start five_replies)"
    "roleAssignments (after_start five_replies) \<noteq> []"
    "map status (workflowSteps (after_start five_replies)) = [user_input, pending, pending, pending, pending]"
    by code_simp+
  have b: "map fst (roles (build_env five_replies)) = [''A'', ''B'', ''C'', ''D'', ''E'']"
    by code_simp
  have "0 < length (workflowSteps ?R)" by code_simp
  then have c: "workflowSteps ?R ! 0 \<in> set (workflowSteps ?R)" by (rule nth_mem)
  from a b c reset_clears [of "build_env five_replies" "after_start five_replies"]
  show ?thesis by simp
qed

subsection \<open>Prompts\<close>

lemma request_carries_prompt:
  "req \<in> set (snd (callAIService nw n serviceId q key mdl img)) \<Longrightarrow> body_prompt req = q"
  by (auto simp: callAIService_def callOpenAI_def callAnthropic_def callGoogle_def callGroq_def
        gemini_post_def openai_request_def anthropic_request_def gemini_request_def groq_request_def
        Let_def split: if_splits option.splits)

lemma sublist_mid: "sublist xs (ps @ xs @ ss)"
  by (rule sublist_appendI)

lemma role_prompt_embeds:
  assumes "map_of (roles env) (role step) = Some rc"
  shows "\<exists>q. createRolePrompt env step inputPrompt 0 = Inr q
           \<and> sublist (name rc) q \<and> sublist (description rc) q
           \<and> sublist (title (selectedOption env)) q \<and> sublist inputPrompt q"
proof -
  let ?q = "''You are a '' @ name rc @ ''. Your role: '' @ description rc
              @ ''. The overall goal is to '' @ title (selectedOption env)
              @ ''. User Request: '' @ [CHR 0x22] @ inputPrompt @ [CHR 0x22]
              @ ''. Please refine and structure this request into clear objectives for the team.''"
  have q: "createRolePrompt env step inputPrompt 0 = Inr ?q"
    using assms by (simp add: createRolePrompt_def)
  have 1: "sublist (name rc) ?q"
    by (rule sublist_appendI)
  have 2: "sublist (description rc) ?q"
    using sublist_appendI [of "description rc" "''You are a '' @ name rc @ ''. Your role: ''"]
    by simp
  have 3: "sublist (title (selectedOption env)) ?q"
    using sublist_appendI [of "title (selectedOption env)"
        "''You are a '' @ name rc @ ''. Your role: '' @ description rc @ ''. The overall goal is to ''"]
    by simp
  have 4: "sublist inputPrompt ?q"
    using sublist_appendI [of inputPrompt
        "''You are a '' @ name rc @ ''. Your role: '' @ description rc @ ''. The overall goal is to ''
           @ title (selectedOption env) @ ''. User Request: '' @ [CHR 0x22]"]
    by simp
  from q 1 2 3 4 show ?thesis by blast
qed

lemma next_prompt_embeds:
  assumes "i < length steps" and "map_of (roles env) (role (steps ! i)) = Some nextRole"
  shows "\<exists>q. createNextStepPrompt env steps cur currentResponse i = Inr q
           \<and> sublist (name nextRole) q \<and> sublist (description nextRole) q
           \<and> sublist currentResponse q"
proof -
  let ?q = "''You are a '' @ name nextRole @ ''. Your role: '' @ description nextRole
              @ ''. The previous step was completed by '' @ roleName cur
              @ '', who provided the following: '' @ [CHR 0x22] @ currentResponse @ [CHR 0x22]
              @ ''. Based on this, please perform your task.''"
  have q: "createNextStepPrompt env steps cur currentResponse i = Inr ?q"
    using assms by (simp add: createNextStepPrompt_def)
  have 1: "sublist (name nextRole) ?q"
    by (rule sublist_appendI)
  have 2: "sublist (description nextRole) ?q"
    using sublist_appendI [of "description nextRole" "''You are a '' @ name nextRole @ ''. Your role: ''"]
    by simp
  have 3: "sublist currentResponse ?q"
    using sublist_appendI [of currentResponse
        "''You are a '' @ name nextRole @ ''. Your role: '' @ description nextRole
           @ ''. The previous step was completed by '' @ roleName cur
           @ '', who provided the following: '' @ [CHR 0x22]"]
    by simp
  from q 1 2 3 show ?thesis by blast
qed

lemma pass_to_next:
  assumes "currentStep s < length (workflowSteps s)"
    and "truthy (response (workflowSteps s ! currentStep s)) = Some r"
    and "createNextStepPrompt env (workflowSteps s) (workflowSteps s ! currentStep s) r
           (currentStep s + 1) = Inr nextPrompt"
  shows "handlePassToNext env s
           = processStep env (currentStep s + 1) nextPrompt (s\<lparr>showAddMore := False\<rparr>)"
  using assms by (simp add: handlePassToNext_def)

lemma call_supported_request:
  assumes "serviceId \<in> {''openai'', ''anthropic'', ''google'', ''groq''}"
  shows "\<exists>req. snd (callAIService nw n serviceId q key mdl None) = [req] \<and> body_prompt req = q"
  using assms
  by (auto simp: callAIService_def callOpenAI_def callAnthropic_def callGoogle_def callGroq_def
        gemini_post_def openai_request_def anthropic_request_def gemini_request_def groq_request_def
        Let_def)

lemma prefix_snoc_nth: "prefix (xs @ [r]) ys \<Longrightarrow> ys ! length xs = r"
  by (auto simp: prefix_def)

lemma processStep_calls_prefix:
  "prefix (calls s) (calls (processStep env stepIndex inputPrompt s))"
proof (induction "length (workflowSteps s) - stepIndex" arbitrary: stepIndex inputPrompt s
        rule: less_induct)
  case less
  have step: "prefix (calls s) (calls (processStep env j p s'))"
    if "prefix (calls s) (calls s')"
      and "length (workflowSteps s') - j < length (workflowSteps s) - stepIndex" for j p s'
    using that(1) less [OF that(2), of p] by (rule prefix_order.trans)
  show ?case
    by (subst processStep.simps)
       (auto simp: Let_def step_failed_def length_map_at split: option.splits sum.splits
          intro!: step)
qed

lemma processStep_first_call:
  assumes "stepIndex < length (workflowSteps s)"
    and "truthy (map_of (roleAssignments s) (role (workflowSteps s ! stepIndex))) = Some ai"
    and "truthy (Option.bind (map_of (connections env) ai) apiKey) = Some key"
    and "createRolePrompt env (workflowSteps s ! stepIndex) inputPrompt stepIndex = Inr rolePrompt"
  shows "prefix (calls s @ snd (callAIService (net env) (length (calls s)) ai rolePrompt key
                                 (Option.bind (map_of (connections env) ai) conn_model) None))
                (calls (processStep env stepIndex inputPrompt s))
         \<and> (stepIndex = 0 \<longrightarrow>
              calls (processStep env stepIndex inputPrompt s)
                = calls s @ snd (callAIService (net env) (length (calls s)) ai rolePrompt key
                                   (Option.bind (map_of (connections env) ai) conn_model) None))"
proof -
  let ?c = "callAIService (net env) (length (calls s)) ai rolePrompt key
              (Option.bind (map_of (connections env) ai) conn_model) None"
  show ?thesis
  proof (cases "fst ?c")
    case (Inl err)
    then have c: "?c = (Inl err, snd ?c)" by (simp add: prod_eq_iff)
    show ?thesis
      unfolding processStep_failure [OF assms c] by simp
  next
    case (Inr resp)
    then have c: "?c = (Inr resp, snd ?c)" by (simp add: prod_eq_iff)
    show ?thesis
    proof (cases "stepIndex = 0")
      case True
      then show ?thesis
        unfolding processStep_success [OF assms c] by simp
    next
      case False
      let ?s3 = "s\<lparr>workflowSteps := (workflowSteps s)[stepIndex :=
                          (workflowSteps s ! stepIndex)
                            \<lparr>status := completed, prompt := inputPrompt,
                             response := Some (content resp)\<rparr>],
                        currentStep := stepIndex,
                        calls := calls s @ snd ?c\<rparr>"
      have p: "prefix (calls ?s3) (calls (processStep env (stepIndex + 1) np ?s3))" for np
        by (rule processStep_calls_prefix)
      show ?thesis
        unfolding processStep_success [OF assms c]
        using False p by (simp add: Let_def split: sum.splits)
    qed
  qed
qed

lemma stage0_sent:
  assumes "0 < length (workflowSteps s)"
    and "truthy (map_of (roleAssignments s) (role (workflowSteps s ! 0))) = Some ai"
    and "ai \<in> {''openai'', ''anthropic'', ''google'', ''groq''}"
    and "truthy (Option.bind (map_of (connections env) ai) apiKey) = Some k"
    and "map_of (roles env) (role (workflowSteps s ! 0)) = Some rc"
  shows "\<exists>req. calls (processStep env 0 inputPrompt s) = calls s @ [req]
           \<and> sublist (name rc) (body_prompt req) \<and> sublist (description rc) (body_prompt req)
           \<and> sublist (title (selectedOption env)) (body_prompt req)
           \<and> sublist inputPrompt (body_prompt req)"
proof -
  from role_prompt_embeds [OF assms(5), of inputPrompt]
  obtain q where q: "createRolePrompt env (workflowSteps s ! 0) inputPrompt 0 = Inr q"
    and e: "sublist (name rc) q" "sublist (description rc) q"
      "sublist (title (selectedOption env)) q" "sublist inputPrompt q"
    by blast
  from call_supported_request [OF assms(3)]
  obtain req where r: "snd (callAIService (net env) (length (calls s)) ai q k
      (Option.bind (map_of (connections env) ai) conn_model) None) = [req]"
    and b: "body_prompt req = q"
    by blast
  from processStep_first_call [OF assms(1,2,4) q] r
  have "calls (processStep env 0 inputPrompt s) = calls s @ [req]"
    by simp
  with e b show ?thesis by blast
qed

lemma later_stage_sent:
  assumes "0 < i" and "i < length (workflowSteps s)"
    and "truthy (map_of (roleAssignments s) (role (workflowSteps s ! i))) = Some ai"
    and "ai \<in> {''openai'', ''anthropic'', ''google'', ''groq''}"
    and "truthy (Option.bind (map_of (connections env) ai) apiKey) = Some k"
  shows "\<exists>req. prefix (calls s @ [req]) (calls (processStep env i inputPrompt s))
           \<and> body_prompt req = inputPrompt"
proof -
  from assms(1) have q: "createRolePrompt env (workflowSteps s ! i) inputPrompt i = Inr inputPrompt"
    by (simp add: createRolePrompt_def)
  from call_supported_request [OF assms(4)]
  obtain req where r: "snd (callAIService (net env) (length (calls s)) ai inputPrompt k
      (Option.bind (map_of (connections env) ai) conn_model) None) = [req]"
    and b: "body_prompt req = inputPrompt"
    by blast
  from processStep_first_call [OF assms(2,3,5) q] r
  have "prefix (calls s @ [req]) (calls (processStep env i inputPrompt s))"
    by simp
  with b show ?thesis by blast
qed

lemma advance_sent:
  assumes "0 < i" and "i + 1 < length (workflowSteps s)"
    and "truthy (map_of (roleAssignments s) (role (workflowSteps s ! i))) = Some ai"
    and "truthy (Option.bind (map_of (connections env) ai) apiKey) = Some k"
    and "callAIService (net env) (length (calls s)) ai inputPrompt k
           (Option.bind (map_of (connections env) ai) conn_model) None = (Inr resp, reqs)"
    and "map_of (roles env) (role (workflowSteps s ! (i + 1))) = Some nextRole"
    and "truthy (map_of (roleAssignments s) (role (workflowSteps s ! (i + 1)))) = Some ai'"
    and "ai' \<in> {''openai'', ''anthropic'', ''google'', ''groq''}"
    and "truthy (Option.bind (map_of (connections env) ai') apiKey) = Some k'"
  shows "\<exists>req. prefix (calls s @ reqs @ [req]) (calls (processStep env i inputPrompt s))
           \<and> sublist (name nextRole) (body_prompt req)
           \<and> sublist (description nextRole) (body_prompt req)
           \<and> sublist (content resp) (body_prompt req)"
proof -
  let ?s3 = "s\<lparr>workflowSteps := (workflowSteps s)[i :=
                   (workflowSteps s ! i)\<lparr>status := completed, prompt := inputPrompt,
                                          response := Some (content resp)\<rparr>],
               currentStep := i, calls := calls s @ reqs\<rparr>"
  from assms(2) have l: "i < length (workflowSteps s)" by simp
  from assms(1) have q: "createRolePrompt env (workflowSteps s ! i) inputPrompt i = Inr inputPrompt"
    by (simp add: createRolePrompt_def)
  from next_prompt_embeds [OF assms(2,6), of "workflowSteps s ! i" "content resp"]
  obtain np where np: "createNextStepPrompt env (workflowSteps s) (workflowSteps s ! i)
                         (content resp) (i + 1) = Inr np"
    and e: "sublist (name nextRole) np" "sublist (description nextRole) np"
      "sublist (content resp) np"
    by blast
  have eq: "processStep env i inputPrompt s = processStep env (i + 1) np ?s3"
    unfolding processStep_success [OF l assms(3,4) q assms(5)]
    using assms(1,2) np by (simp add: Let_def)
  have 1: "0 < i + 1" by simp
  from assms(2) have 2: "i + 1 < length (workflowSteps ?s3)" by simp
  from assms(7) have 3: "truthy (map_of (roleAssignments ?s3) (role (workflowSteps ?s3 ! (i + 1))))
                          = Some ai'"
    by simp
  from later_stage_sent [OF 1 2 3 assms(8,9), of np]
  obtain req where "prefix (calls ?s3 @ [req]) (calls (processStep env (i + 1) np ?s3))"
    and b: "body_prompt req = np"
    by blast
  then have "prefix (calls s @ reqs @ [req]) (calls (processStep env i inputPrompt s))"
    by (simp add: eq)
  with e b show ?thesis by blast
qed

lemma pass_sent:
  assumes "currentStep s + 1 < length (workflowSteps s)"
    and "truthy (response (workflowSteps s ! currentStep s)) = Some r"
    and "map_of (roles env) (role (workflowSteps s ! (currentStep s + 1))) = Some nextRole"
    and "truthy (map_of (roleAssignments s) (role (workflowSteps s ! (currentStep s + 1)))) = Some ai"
    and "ai \<in> {''openai'', ''anthropic'', ''google'', ''groq''}"
    and "truthy (Option.bind (map_of (connections env) ai) apiKey) = Some k"
  shows "\<exists>req. prefix (calls s @ [req]) (calls (handlePassToNext env s))
           \<and> sublist (name nextRole) (body_prompt req)
           \<and> sublist (description nextRole) (body_prompt req)
           \<and> sublist r (body_prompt req)"
proof -
  let ?u = "s\<lparr>showAddMore := False\<rparr>"
  from assms(1) have l: "currentStep s < length (workflowSteps s)" by simp
  from next_prompt_embeds [OF assms(1,3), of "workflowSteps s ! currentStep s" r]
  obtain np where np: "createNextStepPrompt env (workflowSteps s) (workflowSteps s ! currentStep s)
                         r (currentStep s + 1) = Inr np"
    and e: "sublist (name nextRole) np" "sublist (description nextRole) np" "sublist r np"
    by blast
  have eq: "handlePassToNext env s = processStep env (currentStep s + 1) np ?u"
    by (rule pass_to_next [OF l assms(2) np])
  have 1: "0 < currentStep s + 1" by simp
  from assms(1) have 2: "currentStep s + 1 < length (workflowSteps ?u)" by simp
  from assms(4) have 3: "truthy (map_of (roleAssignments ?u)
                           (role (workflowSteps ?u ! (currentStep s + 1)))) = Some ai"
    by simp
  from later_stage_sent [OF 1 2 3 assms(5,6), of np]
  obtain req where "prefix (calls ?u @ [req]) (calls (processStep env (currentStep s + 1) np ?u))"
    and b: "body_prompt req = np"
    by blast
  then have "prefix (calls s @ [req]) (calls (handlePassToNext env s))"
    by (simp add: eq)
  with e b show ?thesis by blast
qed

text \<open>
  C3: the prompt rendered for stage 0 contains the role's name, the role's description, the
  title of the selected option and the user's input; at an index above 0 the rendered prompt
  is the input prompt itself; the prompt built for the next stage contains that stage's role
  name and description and the whole response of the stage before; the adapter puts the
  rendered prompt unchanged into every request it issues; and both hand-overs, the user's
  and the automatic one, run the next stage on the prompt built from the response just
  stored. On the wire: the one request \<open>processStep\<close> sends for stage 0 carries a prompt
  with the role's name and description, the title and the input; the request it sends for a
  stage above 0 carries the input prompt as it is; and the request the next stage sends
  after either hand-over carries that stage's role name and description and the whole
  response of the stage before.
\<close>

theorem prompt_rendering:
  "(map_of (roles env) (role step) = Some rc \<longrightarrow>
      (\<exists>q. createRolePrompt env step inputPrompt 0 = Inr q
         \<and> sublist (name rc) q \<and> sublist (description rc) q
         \<and> sublist (title (selectedOption env)) q \<and> sublist inputPrompt q))
   \<and> (0 < i \<longrightarrow> createRolePrompt env step inputPrompt i = Inr inputPrompt)
   \<and> (i < length steps \<and> map_of (roles env) (role (steps ! i)) = Some nextRole \<longrightarrow>
      (\<exists>q. createNextStepPrompt env steps cur currentResponse i = Inr q
         \<and> sublist (name nextRole) q \<and> sublist (description nextRole) q
         \<and> sublist currentResponse q))
   \<and> (\<forall>req \<in> set (snd (callAIService nw n serviceId rolePrompt key mdl img)).
         body_prompt req = rolePrompt)
   \<and> (currentStep s < length (workflowSteps s)
        \<and> truthy (response (workflowSteps s ! currentStep s)) = Some r
        \<and> createNextStepPrompt env (workflowSteps s) (workflowSteps s ! currentStep s) r
             (currentStep s + 1) = Inr nextPrompt \<longrightarrow>
      handlePassToNext env s
        = processStep env (currentStep s + 1) nextPrompt (s\<lparr>showAddMore := False\<rparr>))
   \<and> (0 < i \<and> i + 1 < length (workflowSteps s)
        \<and> truthy (map_of (roleAssignments s) (role (workflowSteps s ! i))) = Some ai
        \<and> truthy (Option.bind (map_of (connections env) ai) apiKey) = Some k
        \<and> callAIService (net env) (length (calls s)) ai inputPrompt k
             (Option.bind (map_of (connections env) ai) conn_model) None = (Inr resp, reqs)
        \<and> createNextStepPrompt env (workflowSteps s) (workflowSteps s ! i) (content resp) (i + 1)
             = Inr nextPrompt \<longrightarrow>
      processStep env i inputPrompt s
        = processStep env (i + 1) nextPrompt
            (s\<lparr>workflowSteps := (workflowSteps s)[i :=
                   (workflowSteps s ! i)\<lparr>status := completed, prompt := inputPrompt,
                                          response := Some (content resp)\<rparr>],
               currentStep := i, calls := calls s @ reqs\<rparr>))
   \<and> (0 < length (workflowSteps s)
        \<and> truthy (map_of (roleAssignments s) (role (workflowSteps s ! 0))) = Some ai
        \<and> ai \<in> {''openai'', ''anthropic'', ''google'', ''groq''}
        \<and> truthy (Option.bind (map_of (connections env) ai) apiKey) = Some k
        \<and> map_of (roles env) (role (workflowSteps s ! 0)) = Some rc \<longrightarrow>
      (\<exists>req. calls (processStep env 0 inputPrompt s) = calls s @ [req]
         \<and> sublist (name rc) (body_prompt req) \<and> sublist (description rc) (body_prompt req)
         \<and> sublist (title (selectedOption env)) (body_prompt req)
         \<and> sublist inputPrompt (body_prompt req)))
   \<and> (0 < i \<and> i < length (workflowSteps s)
        \<and> truthy (map_of (roleAssignments s) (role (workflowSteps s ! i))) = Some ai
        \<and> ai \<in> {''openai'', ''anthropic'', ''google'', ''groq''}
        \<and> truthy (Option.bind (map_of (connections env) ai) apiKey) = Some k \<longrightarrow>
      (\<exists>req. prefix (calls s @ [req]) (calls (processStep env i inputPrompt s))
         \<and> body_prompt req = inputPrompt))
   \<and> (0 < i \<and> i + 1 < length (workflowSteps s)
        \<and> truthy (map_of (roleAssignments s) (role (workflowSteps s ! i))) = Some ai
        \<and> truthy (Option.bind (map_of (connections env) ai) apiKey) = Some k
        \<and> callAIService (net env) (length (calls s)) ai inputPrompt k
             (Option.bind (map_of (connections env) ai) conn_model) None = (Inr resp, reqs)
        \<and> map_of (roles env) (role (workflowSteps s ! (i + 1))) = Some nextRole
        \<and> truthy (map_of (roleAssignments s) (role (workflowSteps s ! (i + 1)))) = Some ai'
        \<and> ai' \<in> {''openai'', ''anthropic'', ''google'', ''groq''}
        \<and> truthy (Option.bind (map_of (connections env) ai') apiKey) = Some k' \<longrightarrow>
      (\<exists>req. prefix (calls s @ reqs @ [req]) (calls (processStep env i inputPrompt s))
         \<and> sublist (name nextRole) (body_prompt req)
         \<and> sublist (description nextRole) (body_prompt req)
         \<and> sublist (content resp) (body_prompt req)))
   \<and> (currentStep s + 1 < length (workflowSteps s)
        \<and> truthy (response (workflowSteps s ! currentStep s)) = Some r
        \<and> map_of (roles env) (role (workflowSteps s ! (currentStep s + 1))) = Some nextRole
        \<and> truthy (map_of (roleAssignments s) (role (workflowSteps s ! (currentStep s + 1)))) = Some ai
        \<and> ai \<in> {''openai'', ''anthropic'', ''google'', ''groq''}
        \<and> truthy (Option.bind (map_of (connections env) ai) apiKey) = Some k \<longrightarrow>
      (\<exists>req. prefix (calls s @ [req]) (calls (handlePassToNext env s))
         \<and> sublist (name nextRole) (body_prompt req)
         \<and> sublist (description nextRole) (body_prompt req)
         \<and> sublist r (body_prompt req)))"
proof (intro conjI impI)
  assume "map_of (roles env) (role step) = Some rc"
  then show "\<exists>q. createRolePrompt env step inputPrompt 0 = Inr q
         \<and> sublist (name rc) q \<and> sublist (description rc) q
         \<and> sublist (title (selectedOption env)) q \<and> sublist inputPrompt q"
    by (rule role_prompt_embeds)
next
  assume "0 < i"
  then show "createRolePrompt env step inputPrompt i = Inr inputPrompt"
    by (simp add: createRolePrompt_def)
next
  assume "i < length steps \<and> map_of (roles env) (role (steps ! i)) = Some nextRole"
  then show "\<exists>q. createNextStepPrompt env steps cur currentResponse i = Inr q
         \<and> sublist (name nextRole) q \<and> sublist (description nextRole) q
         \<and> sublist currentResponse q"
    by (simp add: next_prompt_embeds)
next
  show "\<forall>req \<in> set (snd (callAIService nw n serviceId rolePrompt key mdl img)).
         body_prompt req = rolePrompt"
    by (simp add: request_carries_prompt)
next
  assume "currentStep s < length (workflowSteps s)
        \<and> truthy (response (workflowSteps s ! currentStep s)) = Some r
        \<and> createNextStepPrompt env (workflowSteps s) (workflowSteps s ! currentStep s) r
             (currentStep s + 1) = Inr nextPrompt"
  then show "handlePassToNext env s
        = processStep env (currentStep s + 1) nextPrompt (s\<lparr>showAddMore := False\<rparr>)"
    by (simp add: pass_to_next)
next
  assume a: "0 < i \<and> i + 1 < length (workflowSteps s)
        \<and> truthy (map_of (roleAssignments s) (role (workflowSteps s ! i))) = Some ai
        \<and> truthy (Option.bind (map_of (connections env) ai) apiKey) = Some k
        \<and> callAIService (net env) (length (calls s)) ai inputPrompt k
             (Option.bind (map_of (connections env) ai) conn_model) None = (Inr resp, reqs)
        \<and> createNextStepPrompt env (workflowSteps s) (workflowSteps s ! i) (content resp) (i + 1)
             = Inr nextPrompt"
  then have r: "createRolePrompt env (workflowSteps s ! i) inputPrompt i = Inr inputPrompt"
    by (simp add: createRolePrompt_def)
  from a have l: "i < length (workflowSteps s)" by simp
  from a show "processStep env i inputPrompt s
        = processStep env (i + 1) nextPrompt
            (s\<lparr>workflowSteps := (workflowSteps s)[i :=
                   (workflowSteps s ! i)\<lparr>status := completed, prompt := inputPrompt,
                                          response := Some (content resp)\<rparr>],
               currentStep := i, calls := calls s @ reqs\<rparr>)"
    by (subst processStep_success [OF l _ _ r, of ai k resp reqs]) simp_all
qed (blast intro: stage0_sent later_stage_sent advance_sent pass_sent)+

theorem prompt_rendering_witness:
  "sublist ''Prompt Refiner''
     (projr (createRolePrompt (build_env five_replies) (workflowSteps (build_ready five_replies) ! 0)
        ''build a todo app'' 0))
   \<and> sublist ''Refines user requirements and creates detailed specifications''
     (projr (createRolePrompt (build_env five_replies) (workflowSteps (build_ready five_replies) ! 0)
        ''build a todo app'' 0))
   \<and> sublist ''Create/Build App''
     (projr (createRolePrompt (build_env five_replies) (workflowSteps (build_ready five_replies) ! 0)
        ''build a todo app'' 0))
   \<and> sublist ''build a todo app''
     (projr (createRolePrompt (build_env five_replies) (workflowSteps (build_ready five_replies) ! 0)
        ''build a todo app'' 0))
   \<and> body_prompt (hd (snd (callAIService (net (build_env five_replies)) 0 ''openai'' ''Hello'' ''sk-test''
        None None))) = ''Hello''
   \<and> sublist ''Backend Developer''
     (projr (createNextStepPrompt (build_env five_replies) (workflowSteps (after_start five_replies))
        (workflowSteps (after_start five_replies) ! 0) ''spec'' 1))
   \<and> sublist ''Creates backend code, APIs, and database structure''
     (projr (createNextStepPrompt (build_env five_replies) (workflowSteps (after_start five_replies))
        (workflowSteps (after_start five_replies) ! 0) ''spec'' 1))
   \<and> sublist ''spec''
     (projr (createNextStepPrompt (build_env five_replies) (workflowSteps (after_start five_replies))
        (workflowSteps (after_start five_replies) ! 0) ''spec'' 1))
   \<and> prompt (workflowSteps (handlePassToNext (build_env five_replies) (after_start five_replies)) ! 2)
       = projr (createNextStepPrompt (build_env five_replies) (workflowSteps (after_start five_replies))
           (workflowSteps (after_start five_replies) ! 1) ''api'' 2)
   \<and> length (calls (processStep (build_env five_replies) 0 ''build a todo app''
                (build_ready five_replies))) = 1
   \<and> sublist ''Prompt Refiner''
       (body_prompt (calls (processStep (build_env five_replies) 0 ''build a todo app''
                             (build_ready five_replies)) ! 0))
   \<and> sublist ''Refines user requirements and creates detailed specifications''
       (body_prompt (calls (processStep (build_env five_replies) 0 ''build a todo app''
                             (build_ready five_replies)) ! 0))
   \<and> sublist ''Create/Build App''
       (body_prompt (calls (processStep (build_env five_replies) 0 ''build a todo app''
                             (build_ready five_replies)) ! 0))
   \<and> sublist ''build a todo app''
       (body_prompt (calls (processStep (build_env five_replies) 0 ''build a todo app''
                             (build_ready five_replies)) ! 0))
   \<and> body_prompt (calls (processStep (build_env five_replies) 1 ''write the backend''
                           (after_start five_replies)) ! 1) = ''write the backend''
   \<and> sublist ''Backend Developer''
       (body_prompt (calls (handlePassToNext (build_env five_replies) (after_start five_replies)) ! 1))
   \<and> sublist ''Creates backend code, APIs, and database structure''
       (body_prompt (calls (handlePassToNext (build_env five_replies) (after_start five_replies)) ! 1))
   \<and> sublist ''spec''
       (body_prompt (calls (handlePassToNext (build_env five_replies) (after_start five_replies)) ! 1))
   \<and> sublist ''Frontend Designer''
       (body_prompt (calls (handlePassToNext (build_env five_replies) (after_start five_replies)) ! 2))
   \<and> sublist ''Builds UI/UX and frontend components''
       (body_prompt (calls (handlePassToNext (build_env five_replies) (after_start five_replies)) ! 2))
   \<and> sublist ''api''
       (body_prompt (calls (handlePassToNext (build_env five_replies) (after_start five_replies)) ! 2))"
proof -
  let ?E = "build_env five_replies"
  let ?S = "build_ready five_replies"
  let ?T = "after_start five_replies"
  let ?A = "\<lparr>name = ''Prompt Refiner'',
             description = ''Refines user requirements and creates detailed specifications''\<rparr>"
  let ?B = "\<lparr>name = ''Backend Developer'',
             description = ''Creates backend code, APIs, and database structure''\<rparr>"
  let ?np1 = "projr (createNextStepPrompt ?E (workflowSteps ?T) (workflowSteps ?T ! 0) ''spec'' 1)"
  let ?np2 = "projr (createNextStepPrompt ?E (workflowSteps ?T) (workflowSteps ?T ! 1) ''api'' 2)"
  let ?U = "?T\<lparr>showAddMore := False\<rparr>"
  let ?c1 = "callAIService (net ?E) (length (calls ?U)) ''openai'' ?np1 ''sk-test''
               (Option.bind (map_of (connections ?E) ''openai'') conn_model) None"
  let ?U3 = "?U\<lparr>workflowSteps := (workflowSteps ?U)[1 :=
                   (workflowSteps ?U ! 1)\<lparr>status := completed, prompt := ?np1,
                                          response := Some (content (projr (fst ?c1)))\<rparr>],
               currentStep := 1, calls := calls ?U @ snd ?c1\<rparr>"
  note r1 = prompt_rendering [THEN conjunct1, rule_format]
  note r3 = prompt_rendering [THEN conjunct2, THEN conjunct2, THEN conjunct1, rule_format]
  note r4 = prompt_rendering [THEN conjunct2, THEN conjunct2, THEN conjunct2, THEN conjunct1,
      rule_format]
  note r5 = prompt_rendering [THEN conjunct2, THEN conjunct2, THEN conjunct2, THEN conjunct2,
      THEN conjunct1, rule_format]
  note r6 = prompt_rendering
      [THEN conjunct2, THEN conjunct2, THEN conjunct2, THEN conjunct2, THEN conjunct2, THEN conjunct1,
       rule_format]
  note r7 = prompt_rendering
      [THEN conjunct2, THEN conjunct2, THEN conjunct2, THEN conjunct2, THEN conjunct2, THEN conjunct2, THEN conjunct1,
       rule_format]
  note r8 = prompt_rendering
      [THEN conjunct2, THEN conjunct2, THEN conjunct2, THEN conjunct2, THEN conjunct2, THEN conjunct2, THEN conjunct2, THEN conjunct1,
       rule_format]
  note r9 = prompt_rendering
      [THEN conjunct2, THEN conjunct2, THEN conjunct2, THEN conjunct2, THEN conjunct2, THEN conjunct2, THEN conjunct2, THEN conjunct2, THEN conjunct1,
       rule_format]
  note r10 = prompt_rendering
      [THEN conjunct2, THEN conjunct2, THEN conjunct2, THEN conjunct2, THEN conjunct2, THEN conjunct2, THEN conjunct2, THEN conjunct2, THEN conjunct2,
       rule_format]
  \<comment> \<open>stage 0\<close>
  have a: "map_of (roles ?E) (role (workflowSteps ?S ! 0)) = Some ?A" by code_simp
  have t: "title (selectedOption ?E) = ''Create/Build App''" by code_simp
  from r1 [OF a, of "''build a todo app''"]
  obtain q where q: "createRolePrompt ?E (workflowSteps ?S ! 0) ''build a todo app'' 0 = Inr q"
    and qs: "sublist (name ?A) q" "sublist (description ?A) q"
      "sublist (title (selectedOption ?E)) q" "sublist ''build a todo app'' q"
    by blast
  from q qs t have 1: "sublist ''Prompt Refiner''
     (projr (createRolePrompt ?E (workflowSteps ?S ! 0) ''build a todo app'' 0))
   \<and> sublist ''Refines user requirements and creates detailed specifications''
     (projr (createRolePrompt ?E (workflowSteps ?S ! 0) ''build a todo app'' 0))
   \<and> sublist ''Create/Build App''
     (projr (createRolePrompt ?E (workflowSteps ?S ! 0) ''build a todo app'' 0))
   \<and> sublist ''build a todo app''
     (projr (createRolePrompt ?E (workflowSteps ?S ! 0) ''build a todo app'' 0))"
    by simp
  \<comment> \<open>the request\<close>
  have "snd (callAIService (net ?E) 0 ''openai'' ''Hello'' ''sk-test'' None None) \<noteq> []"
    by code_simp
  then have "hd (snd (callAIService (net ?E) 0 ''openai'' ''Hello'' ''sk-test'' None None))
               \<in> set (snd (callAIService (net ?E) 0 ''openai'' ''Hello'' ''sk-test'' None None))"
    by (rule hd_in_set)
  then have 2: "body_prompt (hd (snd (callAIService (net ?E) 0 ''openai'' ''Hello'' ''sk-test'' None None)))
             = ''Hello''"
    by (rule r4)
  \<comment> \<open>the prompt for stage 1, and the hand-over\<close>
  have b: "1 < length (workflowSteps ?T) \<and> map_of (roles ?E) (role (workflowSteps ?T ! 1)) = Some ?B"
    by code_simp
  from r3 [OF b, of "workflowSteps ?T ! 0" "''spec''"]
  obtain q1 where q1: "createNextStepPrompt ?E (workflowSteps ?T) (workflowSteps ?T ! 0) ''spec'' 1 = Inr q1"
    and q1s: "sublist (name ?B) q1" "sublist (description ?B) q1" "sublist ''spec'' q1"
    by blast
  from q1 q1s have 3: "sublist ''Backend Developer'' ?np1
     \<and> sublist ''Creates backend code, APIs, and database structure'' ?np1 \<and> sublist ''spec'' ?np1"
    by simp
  have c: "currentStep ?T < length (workflowSteps ?T)
        \<and> truthy (response (workflowSteps ?T ! currentStep ?T)) = Some ''spec''
        \<and> createNextStepPrompt ?E (workflowSteps ?T) (workflowSteps ?T ! currentStep ?T) ''spec''
             (currentStep ?T + 1) = Inr ?np1"
    by code_simp
  have cs: "currentStep ?T + 1 = 1" by code_simp
  have "handlePassToNext ?E ?T = processStep ?E (currentStep ?T + 1) ?np1 ?U"
    by (rule r5 [OF c])
  with cs have 4: "handlePassToNext ?E ?T = processStep ?E 1 ?np1 ?U"
    by simp
  \<comment> \<open>the automatic advance from stage 1 to stage 2\<close>
  have d: "0 < (1::nat) \<and> 1 + 1 < length (workflowSteps ?U)
        \<and> truthy (map_of (roleAssignments ?U) (role (workflowSteps ?U ! 1))) = Some ''openai''
        \<and> truthy (Option.bind (map_of (connections ?E) ''openai'') apiKey) = Some ''sk-test''
        \<and> ?c1 = (Inr (projr (fst ?c1)), snd ?c1)
        \<and> createNextStepPrompt ?E (workflowSteps ?U) (workflowSteps ?U ! 1)
             (content (projr (fst ?c1))) (1 + 1) = Inr ?np2"
    by code_simp
  have 5: "processStep ?E 1 ?np1 ?U = processStep ?E (1 + 1) ?np2 ?U3"
    by (rule r6 [OF d])
  have 6: "prompt (workflowSteps (processStep ?E (1 + 1) ?np2 ?U3) ! 2) = ?np2"
    by code_simp
  from 4 5 6 have 7: "prompt (workflowSteps (handlePassToNext ?E ?T) ! 2) = ?np2"
    by simp
  \<comment> \<open>what stage 0 sends\<close>
  let ?P0 = "processStep ?E 0 ''build a todo app'' ?S"
  have e: "0 < length (workflowSteps ?S)
        \<and> truthy (map_of (roleAssignments ?S) (role (workflowSteps ?S ! 0))) = Some ''openai''
        \<and> ''openai'' \<in> {''openai'', ''anthropic'', ''google'', ''groq''}
        \<and> truthy (Option.bind (map_of (connections ?E) ''openai'') apiKey) = Some ''sk-test''
        \<and> map_of (roles ?E) (role (workflowSteps ?S ! 0)) = Some ?A"
    by code_simp
  have e': "calls ?S = []" by code_simp
  from r7 [OF e, of "''build a todo app''"] e' t
  obtain req0 where "calls ?P0 = [req0]"
    and "sublist ''Prompt Refiner'' (body_prompt req0)"
    and "sublist ''Refines user requirements and creates detailed specifications'' (body_prompt req0)"
    and "sublist ''Create/Build App'' (body_prompt req0)"
    and "sublist ''build a todo app'' (body_prompt req0)"
    by auto
  then have 8: "length (calls ?P0) = 1
     \<and> sublist ''Prompt Refiner'' (body_prompt (calls ?P0 ! 0))
     \<and> sublist ''Refines user requirements and creates detailed specifications''
         (body_prompt (calls ?P0 ! 0))
     \<and> sublist ''Create/Build App'' (body_prompt (calls ?P0 ! 0))
     \<and> sublist ''build a todo app'' (body_prompt (calls ?P0 ! 0))"
    by simp
  \<comment> \<open>what a later stage sends\<close>
  have f: "0 < (1::nat) \<and> 1 < length (workflowSteps ?T)
        \<and> truthy (map_of (roleAssignments ?T) (role (workflowSteps ?T ! 1))) = Some ''openai''
        \<and> ''openai'' \<in> {''openai'', ''anthropic'', ''google'', ''groq''}
        \<and> truthy (Option.bind (map_of (connections ?E) ''openai'') apiKey) = Some ''sk-test''"
    by code_simp
  have lT: "length (calls ?T) = 1" by code_simp
  from r8 [OF f, of "''write the backend''"]
  obtain req1 where "prefix (calls ?T @ [req1]) (calls (processStep ?E 1 ''write the backend'' ?T))"
    and "body_prompt req1 = ''write the backend''"
    by blast
  with lT have 9: "body_prompt (calls (processStep ?E 1 ''write the backend'' ?T) ! 1)
                     = ''write the backend''"
    using prefix_snoc_nth [of "calls ?T" req1] by simp
  \<comment> \<open>what stage 1 receives after the user's hand-over\<close>
  have g: "currentStep ?T + 1 < length (workflowSteps ?T)
        \<and> truthy (response (workflowSteps ?T ! currentStep ?T)) = Some ''spec''
        \<and> map_of (roles ?E) (role (workflowSteps ?T ! (currentStep ?T + 1))) = Some ?B
        \<and> truthy (map_of (roleAssignments ?T) (role (workflowSteps ?T ! (currentStep ?T + 1))))
            = Some ''openai''
        \<and> ''openai'' \<in> {''openai'', ''anthropic'', ''google'', ''groq''}
        \<and> truthy (Option.bind (map_of (connections ?E) ''openai'') apiKey) = Some ''sk-test''"
    by code_simp
  from r10 [OF g]
  obtain req2 where "prefix (calls ?T @ [req2]) (calls (handlePassToNext ?E ?T))"
    and "sublist (name ?B) (body_prompt req2)" and "sublist (description ?B) (body_prompt req2)"
    and "sublist ''spec'' (body_prompt req2)"
    by blast
  with lT have 10: "sublist ''Backend Developer'' (body_prompt (calls (handlePassToNext ?E ?T) ! 1))
     \<and> sublist ''Creates backend code, APIs, and database structure''
         (body_prompt (calls (handlePassToNext ?E ?T) ! 1))
     \<and> sublist ''spec'' (body_prompt (calls (handlePassToNext ?E ?T) ! 1))"
    using prefix_snoc_nth [of "calls ?T" req2] by simp
  \<comment> \<open>what stage 2 receives after the automatic advance\<close>
  let ?C = "\<lparr>name = ''Frontend Designer'', description = ''Builds UI/UX and frontend components''\<rparr>"
  have h: "0 < (1::nat) \<and> 1 + 1 < length (workflowSteps ?U)
        \<and> truthy (map_of (roleAssignments ?U) (role (workflowSteps ?U ! 1))) = Some ''openai''
        \<and> truthy (Option.bind (map_of (connections ?E) ''openai'') apiKey) = Some ''sk-test''
        \<and> ?c1 = (Inr (projr (fst ?c1)), snd ?c1)
        \<and> map_of (roles ?E) (role (workflowSteps ?U ! (1 + 1))) = Some ?C
        \<and> truthy (map_of (roleAssignments ?U) (role (workflowSteps ?U ! (1 + 1)))) = Some ''anthropic''
        \<and> ''anthropic'' \<in> {''openai'', ''anthropic'', ''google'', ''groq''}
        \<and> truthy (Option.bind (map_of (connections ?E) ''anthropic'') apiKey) = Some ''sk-test''"
    by code_simp
  have h': "content (projr (fst ?c1)) = ''api''" "length (calls ?U @ snd ?c1) = 2"
    by code_simp+
  from r9 [OF h]
  obtain req3 where p3: "prefix (calls ?U @ snd ?c1 @ [req3]) (calls (processStep ?E 1 ?np1 ?U))"
    and "sublist (name ?C) (body_prompt req3)" and "sublist (description ?C) (body_prompt req3)"
    and "sublist (content (projr (fst ?c1))) (body_prompt req3)"
    by blast
  with h'(1) have s3: "sublist ''Frontend Designer'' (body_prompt req3)"
    "sublist ''Builds UI/UX and frontend components'' (body_prompt req3)"
    "sublist ''api'' (body_prompt req3)"
    by simp_all
  from p3 h'(2) have "calls (processStep ?E 1 ?np1 ?U) ! 2 = req3"
    using prefix_snoc_nth [of "calls ?U @ snd ?c1" req3] by simp
  with 4 s3 have 11: "sublist ''Frontend Designer'' (body_prompt (calls (handlePassToNext ?E ?T) ! 2))
     \<and> sublist ''Builds UI/UX and frontend components''
         (body_prompt (calls (handlePassToNext ?E ?T) ! 2))
     \<and> sublist ''api'' (body_prompt (calls (handlePassToNext ?E ?T) ! 2))"
    by simp
  from 1 2 3 7 8 9 10 11 show ?thesis by blast
qed

subsection \<open>Refinement of stage 0\<close>

lemma current_prompt_of_stage0:
  assumes "workflowSteps s \<noteq> []" and "step_id (workflowSteps s ! 0) = ''A''"
    and "prompt (workflowSteps s ! 0) \<noteq> []"
  shows "currentPromptForStep0 s = prompt (workflowSteps s ! 0)"
  using assms by (cases "workflowSteps s") (simp_all add: currentPromptForStep0_def or_else_def)

lemma refine_success:
  assumes "trim (additionalInput s) \<noteq> []" and "0 < length (workflowSteps s)"
    and "truthy (map_of (roleAssignments s) (role (workflowSteps s ! 0))) = Some ai"
    and "truthy (Option.bind (map_of (connections env) ai) apiKey) = Some key"
    and "createRolePrompt env (workflowSteps s ! 0)
           (currentPromptForStep0 s @ [CHR 0x0A, CHR 0x0A] @ ''Additional requirements: ''
              @ additionalInput s) 0 = Inr rolePrompt"
    and "callAIService (net env) (length (calls s)) ai rolePrompt key
           (Option.bind (map_of (connections env) ai) conn_model) None = (Inr resp, reqs)"
  shows "workflowSteps (handleAddMore env s)
        = (workflowSteps s)[0 := (workflowSteps s ! 0)
             \<lparr>status := user_input,
              prompt := currentPromptForStep0 s @ [CHR 0x0A, CHR 0x0A] @ ''Additional requirements: ''
                          @ additionalInput s,
              response := Some (content resp)\<rparr>]
      \<and> calls (handleAddMore env s) = calls s @ reqs"
proof -
  let ?p = "currentPromptForStep0 s @ [CHR 0x0A, CHR 0x0A] @ ''Additional requirements: ''
              @ additionalInput s"
  let ?s = "s\<lparr>additionalInput := [], showAddMore := False\<rparr>"
  from assms(1) have h: "handleAddMore env s = processStep env 0 ?p ?s"
    by (simp add: handleAddMore_def)
  from assms have 1: "0 < length (workflowSteps ?s)"
    and 2: "truthy (map_of (roleAssignments ?s) (role (workflowSteps ?s ! 0))) = Some ai"
    and 3: "truthy (Option.bind (map_of (connections env) ai) apiKey) = Some key"
    and 4: "createRolePrompt env (workflowSteps ?s ! 0) ?p 0 = Inr rolePrompt"
    and 5: "callAIService (net env) (length (calls ?s)) ai rolePrompt key
             (Option.bind (map_of (connections env) ai) conn_model) None = (Inr resp, reqs)"
    by simp_all
  show ?thesis
    unfolding h processStep_success [OF 1 2 3 4 5] by simp
qed

text \<open>
  C4: \<open>handleAddMore\<close> with an additional input that is empty once trimmed shows the
  error toast and changes nothing else. Otherwise it runs stage 0 again on the prompt of
  stage 0, two line feeds, the label \<open>Additional requirements: \<close> and the additional
  input as typed; when that call succeeds, stage 0 holds the combined prompt and the new
  response alone, and awaits the user again.
\<close>

theorem refinement:
  "(trim (additionalInput s) = [] \<longrightarrow>
      handleAddMore env s = s\<lparr>toasts := toasts s @ [ToastError ''Please enter additional requirements!'']\<rparr>)
   \<and> (trim (additionalInput s) \<noteq> [] \<longrightarrow>
      handleAddMore env s
        = processStep env 0
            (currentPromptForStep0 s @ [CHR 0x0A, CHR 0x0A] @ ''Additional requirements: ''
               @ additionalInput s)
            (s\<lparr>additionalInput := [], showAddMore := False\<rparr>))
   \<and> (workflowSteps s \<noteq> [] \<and> step_id (workflowSteps s ! 0) = ''A''
        \<and> prompt (workflowSteps s ! 0) \<noteq> [] \<longrightarrow>
      currentPromptForStep0 s = prompt (workflowSteps s ! 0))
   \<and> (trim (additionalInput s) \<noteq> [] \<and> 0 < length (workflowSteps s)
        \<and> truthy (map_of (roleAssignments s) (role (workflowSteps s ! 0))) = Some ai
        \<and> truthy (Option.bind (map_of (connections env) ai) apiKey) = Some key
        \<and> createRolePrompt env (workflowSteps s ! 0)
             (currentPromptForStep0 s @ [CHR 0x0A, CHR 0x0A] @ ''Additional requirements: ''
                @ additionalInput s) 0 = Inr rolePrompt
        \<and> callAIService (net env) (length (calls s)) ai rolePrompt key
             (Option.bind (map_of (connections env) ai) conn_model) None = (Inr resp, reqs) \<longrightarrow>
      workflowSteps (handleAddMore env s)
        = (workflowSteps s)[0 := (workflowSteps s ! 0)
             \<lparr>status := user_input,
              prompt := currentPromptForStep0 s @ [CHR 0x0A, CHR 0x0A] @ ''Additional requirements: ''
                          @ additionalInput s,
              response := Some (content resp)\<rparr>]
      \<and> calls (handleAddMore env s) = calls s @ reqs)"
proof (intro conjI impI)
  assume "trim (additionalInput s) = []"
  then show "handleAddMore env s
      = s\<lparr>toasts := toasts s @ [ToastError ''Please enter additional requirements!'']\<rparr>"
    by (simp add: handleAddMore_def)
next
  assume "trim (additionalInput s) \<noteq> []"
  then show "handleAddMore env s
        = processStep env 0
            (currentPromptForStep0 s @ [CHR 0x0A, CHR 0x0A] @ ''Additional requirements: ''
               @ additionalInput s)
            (s\<lparr>additionalInput := [], showAddMore := False\<rparr>)"
    by (simp add: handleAddMore_def)
next
  assume "workflowSteps s \<noteq> [] \<and> step_id (workflowSteps s ! 0) = ''A''
        \<and> prompt (workflowSteps s ! 0) \<noteq> []"
  then show "currentPromptForStep0 s = prompt (workflowSteps s ! 0)"
    by (simp add: current_prompt_of_stage0)
qed (simp_all add: refine_success)

theorem refinement_witness:
  "handleAddMore (build_env five_replies) ((after_start five_replies)\<lparr>additionalInput := ''  ''\<rparr>)
     = (after_start five_replies)
         \<lparr>additionalInput := ''  '', toasts := [ToastError ''Please enter additional requirements!'']\<rparr>
   \<and> prompt (workflowSteps (after_start five_replies) ! 0) = ''build a todo app''
   \<and> response (workflowSteps (after_start five_replies) ! 0) = Some ''spec''
   \<and> workflowSteps (handleAddMore (build_env five_replies)
                       ((after_start five_replies)\<lparr>additionalInput := ''add dark mode''\<rparr>)) ! 0
       = (workflowSteps (after_start five_replies) ! 0)
           \<lparr>status := user_input,
            prompt := ''build a todo app'' @ [CHR 0x0A, CHR 0x0A] @ ''Additional requirements: add dark mode'',
            response := Some ''api''\<rparr>
   \<and> length (calls (handleAddMore (build_env five_replies)
                       ((after_start five_replies)\<lparr>additionalInput := ''add dark mode''\<rparr>))) = 2"
proof -
  let ?E = "build_env five_replies"
  let ?T = "after_start five_replies"
  let ?B = "?T\<lparr>additionalInput := ''  ''\<rparr>"
  let ?D = "?T\<lparr>additionalInput := ''add dark mode''\<rparr>"
  let ?p = "currentPromptForStep0 ?D @ [CHR 0x0A, CHR 0x0A] @ ''Additional requirements: ''
              @ additionalInput ?D"
  let ?q = "projr (createRolePrompt ?E (workflowSteps ?D ! 0) ?p 0)"
  let ?c = "callAIService (net ?E) (length (calls ?D)) ''openai'' ?q ''sk-test''
              (Option.bind (map_of (connections ?E) ''openai'') conn_model) None"
  note r1 = refinement [THEN conjunct1, rule_format]
  note r3 = refinement [THEN conjunct2, THEN conjunct2, THEN conjunct1, rule_format]
  note r4 = refinement [THEN conjunct2, THEN conjunct2, THEN conjunct2, rule_format]
  have a: "trim (additionalInput ?B) = []" by code_simp
  have a': "toasts ?T = []" by code_simp
  from r1 [OF a, of ?E] a' have 1: "handleAddMore ?E ?B
     = ?T\<lparr>additionalInput := ''  '', toasts := [ToastError ''Please enter additional requirements!'']\<rparr>"
    by simp
  have b: "prompt (workflowSteps ?T ! 0) = ''build a todo app''"
    "response (workflowSteps ?T ! 0) = Some ''spec''"
    by code_simp+
  have c: "workflowSteps ?D \<noteq> [] \<and> step_id (workflowSteps ?D ! 0) = ''A''
        \<and> prompt (workflowSteps ?D ! 0) \<noteq> []"
    by code_simp
  from r3 [OF c] b have p: "?p = ''build a todo app'' @ [CHR 0x0A, CHR 0x0A]
                              @ ''Additional requirements: add dark mode''"
    by simp
  have d: "trim (additionalInput ?D) \<noteq> [] \<and> 0 < length (workflowSteps ?D)
        \<and> truthy (map_of (roleAssignments ?D) (role (workflowSteps ?D ! 0))) = Some ''openai''
        \<and> truthy (Option.bind (map_of (connections ?E) ''openai'') apiKey) = Some ''sk-test''
        \<and> createRolePrompt ?E (workflowSteps ?D ! 0) ?p 0 = Inr ?q
        \<and> ?c = (Inr (projr (fst ?c)), snd ?c)"
    by code_simp
  have e: "content (projr (fst ?c)) = ''api''" "length (calls ?D @ snd ?c) = 2"
    by code_simp+
  from r4 [OF d] have "workflowSteps (handleAddMore ?E ?D)
        = (workflowSteps ?D)[0 := (workflowSteps ?D ! 0)
             \<lparr>status := user_input, prompt := ?p, response := Some (content (projr (fst ?c)))\<rparr>]"
    and n: "calls (handleAddMore ?E ?D) = calls ?D @ snd ?c"
    by blast+
  with d have "workflowSteps (handleAddMore ?E ?D) ! 0
        = (workflowSteps ?D ! 0)
             \<lparr>status := user_input, prompt := ?p, response := Some (content (projr (fst ?c)))\<rparr>"
    by simp
  with p e(1) have 2: "workflowSteps (handleAddMore ?E ?D) ! 0
       = (workflowSteps ?T ! 0)
           \<lparr>status := user_input,
            prompt := ''build a todo app'' @ [CHR 0x0A, CHR 0x0A] @ ''Additional requirements: add dark mode'',
            response := Some ''api''\<rparr>"
    by simp
  from n e(2) have 3: "length (calls (handleAddMore ?E ?D)) = 2" by simp
  from 1 b 2 3 show ?thesis by blast
qed

end
